theory Spec2Isabelle
  imports Complex_Main "HOL-Library.AList" "HOL-Library.Sublist"
begin

section \<open>JavaScript values\<close>

text \<open>
  The player and the Picture-in-Picture helpers work on plain JavaScript values. A number
  is a finite real, an infinity or NaN; comparisons with NaN are false, as in the language.
  Objects are association lists (the first binding of a key is the one read), strings are
  character lists, a function value carries its name only.
\<close>

datatype jsnum = NaN | PosInf | NegInf | Fin real

datatype jsval =
    JUndefined
  | JNull
  | JBool bool
  | JNum jsnum
  | JStr string
  | JBigInt int
  | JFunc string
  | JArr "jsval list"
  | JObj "(string \<times> jsval) list"

fun js_gt :: "jsnum \<Rightarrow> jsnum \<Rightarrow> bool" where
  "js_gt NaN _ = False"
| "js_gt _ NaN = False"
| "js_gt PosInf PosInf = False"
| "js_gt PosInf _ = True"
| "js_gt NegInf _ = False"
| "js_gt (Fin a) PosInf = False"
| "js_gt (Fin a) NegInf = True"
| "js_gt (Fin a) (Fin b) = (a > b)"

definition js_lt :: "jsnum \<Rightarrow> jsnum \<Rightarrow> bool" where
  "js_lt a b = js_gt b a"

fun js_le :: "jsnum \<Rightarrow> jsnum \<Rightarrow> bool" where
  "js_le NaN _ = False"
| "js_le _ NaN = False"
| "js_le a b = (\<not> js_gt a b)"

definition js_ge :: "jsnum \<Rightarrow> jsnum \<Rightarrow> bool" where
  "js_ge a b = js_le b a"

fun js_sub :: "jsnum \<Rightarrow> jsnum \<Rightarrow> jsnum" where
  "js_sub NaN _ = NaN"
| "js_sub _ NaN = NaN"
| "js_sub PosInf PosInf = NaN"
| "js_sub PosInf _ = PosInf"
| "js_sub NegInf NegInf = NaN"
| "js_sub NegInf _ = NegInf"
| "js_sub (Fin a) PosInf = NegInf"
| "js_sub (Fin a) NegInf = PosInf"
| "js_sub (Fin a) (Fin b) = Fin (a - b)"

fun js_isFinite :: "jsnum \<Rightarrow> bool" where
  "js_isFinite (Fin a) = True"
| "js_isFinite _ = False"

text \<open>Truthiness of a number: \<open>0\<close> and \<open>NaN\<close> are falsy.\<close>

fun num_truthy :: "jsnum \<Rightarrow> bool" where
  "num_truthy NaN = False"
| "num_truthy (Fin a) = (a \<noteq> 0)"
| "num_truthy _ = True"

fun truthy :: "jsval \<Rightarrow> bool" where
  "truthy JUndefined = False"
| "truthy JNull = False"
| "truthy (JBool b) = b"
| "truthy (JNum n) = num_truthy n"
| "truthy (JStr s) = (s \<noteq> [])"
| "truthy (JBigInt i) = (i \<noteq> 0)"
| "truthy (JFunc f) = True"
| "truthy (JArr xs) = True"
| "truthy (JObj kvs) = True"

fun typeof :: "jsval \<Rightarrow> string" where
  "typeof JUndefined = ''undefined''"
| "typeof JNull = ''object''"
| "typeof (JBool b) = ''boolean''"
| "typeof (JNum n) = ''number''"
| "typeof (JStr s) = ''string''"
| "typeof (JBigInt i) = ''bigint''"
| "typeof (JFunc f) = ''function''"
| "typeof (JArr xs) = ''object''"
| "typeof (JObj kvs) = ''object''"

text \<open>\<open>a || b\<close> on values.\<close>

definition js_or :: "jsval \<Rightarrow> jsval \<Rightarrow> jsval" where
  "js_or a b = (if truthy a then a else b)"

text \<open>
  Reading a named property. The names read by the code below (\<open>id\<close>, \<open>name\<close>,
  \<open>logo\<close>, \<open>group\<close>, \<open>channelId\<close>, \<open>channel\<close>, \<open>streamUrl\<close>, \<open>timestamp\<close>,
  \<open>fromUserGesture\<close>, \<open>pendingPiP\<close>) are own properties of plain objects only, apart
  from \<open>name\<close> on a function; every other read yields \<open>undefined\<close>. The code never
  reads a property of \<open>null\<close> or \<open>undefined\<close> on the paths modelled here: each such
  read is guarded by a truthiness test.
\<close>

fun get_prop :: "jsval \<Rightarrow> string \<Rightarrow> jsval" where
  "get_prop (JObj kvs) k = (case map_of kvs k of Some v \<Rightarrow> v | None \<Rightarrow> JUndefined)"
| "get_prop (JFunc f) k = (if k = ''name'' then JStr f else JUndefined)"
| "get_prop _ k = JUndefined"

section \<open>Player: manual retry\<close>

text \<open>
  The part of the \<open>Player\<close> component's state that the retry and error paths read and
  write. \<open>useState\<close> cells are fields; a setter call is a field update.
\<close>

record player =
  loading :: bool
  error :: string
  errorDetails :: string
  retryCount :: nat
  streamLoaded :: bool

definition MAX_RETRIES :: nat where
  "MAX_RETRIES = 3"


definition max_retries_message :: string where
  "max_retries_message = ''Stream failed after multiple attempts. Please try again later.''"

definition retryStream :: "player \<Rightarrow> player" where
  "retryStream p =
     (if retryCount p < MAX_RETRIES
      then p\<lparr> error := '''', errorDetails := '''', loading := True,
               retryCount := retryCount p + 1 \<rparr>
      else p\<lparr> error := max_retries_message \<rparr>)"


section \<open>Persisted Picture-in-Picture record (\<open>pipStateManager.js\<close>)\<close>

subsection \<open>Object helpers\<close>

text \<open>The key of an array index: its decimal digits.\<close>

definition digit :: "nat \<Rightarrow> char" where
  "digit d = ''0123456789'' ! d"

fun index_key :: "nat \<Rightarrow> string" where
  "index_key n = (if n < 10 then [digit n] else index_key (n div 10) @ [digit (n mod 10)])"

declare index_key.simps [simp del]

text \<open>
  The own enumerable properties copied by an object spread \<open>{ ...v }\<close>: those of an
  object, the indexed elements of an array or of a string, nothing for the other values.
  An object has one binding for a key, the first of its list.
\<close>

fun indexed_entries :: "jsval \<Rightarrow> (string \<times> jsval) list" where
  "indexed_entries (JObj kvs) = kvs"
| "indexed_entries (JArr xs) = zip (map index_key [0..<length xs]) xs"
| "indexed_entries (JStr s) = zip (map index_key [0..<length s]) (map (\<lambda>c. JStr [c]) s)"
| "indexed_entries _ = []"

definition own_entries :: "jsval \<Rightarrow> (string \<times> jsval) list" where
  "own_entries v = AList.clearjunk (indexed_entries v)"

text \<open>\<open>{ ...v, k: x }\<close>: an existing key keeps its place, a new key goes last.\<close>

definition spread_with :: "jsval \<Rightarrow> string \<Rightarrow> jsval \<Rightarrow> jsval" where
  "spread_with v k x = JObj (AList.update k x (own_entries v))"

subsection \<open>\<open>JSON.stringify\<close> followed by \<open>JSON.parse\<close>\<close>

text \<open>
  The stored text is represented by the value that \<open>JSON.parse\<close> reads back from it.
  Serialising omits a property whose value is \<open>undefined\<close> or a function, writes
  \<open>null\<close> for such an array element and for a non-finite number, and throws a
  \<open>TypeError\<close> on a BigInt. (A cyclic structure, on which it throws too, is not a value of
  \<open>jsval\<close>.)
\<close>

datatype json_result = Throws | Omitted | Serial jsval

fun to_json :: "jsval \<Rightarrow> json_result"
  and to_json_elems :: "jsval list \<Rightarrow> jsval list option"
  and to_json_props :: "(string \<times> jsval) list \<Rightarrow> (string \<times> jsval) list option" where
  "to_json JUndefined = Omitted"
| "to_json (JFunc f) = Omitted"
| "to_json JNull = Serial JNull"
| "to_json (JBool b) = Serial (JBool b)"
| "to_json (JNum n) = Serial (if js_isFinite n then JNum n else JNull)"
| "to_json (JStr s) = Serial (JStr s)"
| "to_json (JBigInt i) = Throws"
| "to_json (JArr xs) =
     (case to_json_elems xs of None \<Rightarrow> Throws | Some ys \<Rightarrow> Serial (JArr ys))"
| "to_json (JObj kvs) =
     (case to_json_props kvs of None \<Rightarrow> Throws | Some ps \<Rightarrow> Serial (JObj ps))"
| "to_json_elems [] = Some []"
| "to_json_elems (x # xs) =
     (case to_json x of
        Throws \<Rightarrow> None
      | Omitted \<Rightarrow> map_option (Cons JNull) (to_json_elems xs)
      | Serial v \<Rightarrow> map_option (Cons v) (to_json_elems xs))"
| "to_json_props [] = Some []"
| "to_json_props (kv # kvs) =
     (case to_json (snd kv) of
        Throws \<Rightarrow> None
      | Omitted \<Rightarrow> to_json_props kvs
      | Serial w \<Rightarrow> map_option (Cons (fst kv, w)) (to_json_props kvs))"

subsection \<open>Session storage\<close>

text \<open>
  An item of \<open>sessionStorage\<close> is a text: \<open>Unparsable s\<close> is a text \<open>s\<close> that
  \<open>JSON.parse\<close> rejects (the empty text is one), \<open>Json v\<close> a non-empty text that it
  reads as \<open>v\<close>. \<open>getItem\<close> and \<open>removeItem\<close> are total, as the Web Storage
  interface defines them; \<open>setItem\<close> throws when the quota is exceeded, which is an input
  of the model (\<open>setItem_fails\<close>).
\<close>

datatype stored = Unparsable string | Json jsval

record storage =
  items :: "string \<rightharpoonup> stored"
  setItem_fails :: bool

definition getItem :: "string \<Rightarrow> storage \<Rightarrow> stored option" where
  "getItem k st = items st k"

definition removeItem :: "string \<Rightarrow> storage \<Rightarrow> storage" where
  "removeItem k st = st\<lparr> items := (items st)(k := None) \<rparr>"

definition setItem :: "string \<Rightarrow> stored \<Rightarrow> storage \<Rightarrow> storage option" where
  "setItem k v st =
     (if setItem_fails st then None else Some (st\<lparr> items := (items st)(k \<mapsto> v) \<rparr>))"

subsection \<open>Saving, validating and loading\<close>

definition PIP_STATE_KEY :: string where
  "PIP_STATE_KEY = ''iptv_pip_state''"

definition PIP_EXPIRY_TIME :: real where
  "PIP_EXPIRY_TIME = 30 * 60 * 1000"

definition cleanedChannel :: "jsval \<Rightarrow> jsval" where
  "cleanedChannel channel = JObj
     [(''id'', js_or (get_prop channel ''id'') JNull),
      (''name'', js_or (get_prop channel ''name'') (JStr ''Unknown Channel'')),
      (''logo'', js_or (get_prop channel ''logo'') JNull),
      (''group'', js_or (get_prop channel ''group'') JNull),
      (''channelId'', js_or (js_or (get_prop channel ''channelId'') (get_prop channel ''id''))
                            JNull)]"

text \<open>
  The test of the sanitising loop: a function, or an object that is neither \<open>null\<close> nor
  an array.
\<close>

fun is_array :: "jsval \<Rightarrow> bool" where
  "is_array (JArr xs) = True"
| "is_array _ = False"

definition dropped_option :: "jsval \<Rightarrow> bool" where
  "dropped_option v =
     (typeof v = ''function'' \<or> (typeof v = ''object'' \<and> v \<noteq> JNull \<and> \<not> is_array v))"

text \<open>\<open>Object.keys(o).forEach(key => { if (...) delete o[key] })\<close>.\<close>

fun sanitize_loop :: "string list \<Rightarrow> (string \<times> jsval) list \<Rightarrow> (string \<times> jsval) list" where
  "sanitize_loop [] ob = ob"
| "sanitize_loop (k # ks) ob =
     sanitize_loop ks (if dropped_option (get_prop (JObj ob) k) then AList.delete k ob else ob)"

definition sanitizedOptions :: "jsval \<Rightarrow> (string \<times> jsval) list" where
  "sanitizedOptions options =
     (let ob = own_entries options in sanitize_loop (map fst ob) ob)"

definition pip_record :: "jsval \<Rightarrow> jsval \<Rightarrow> jsval \<Rightarrow> int \<Rightarrow> jsval" where
  "pip_record channel streamUrl options now = JObj
     [(''channel'', cleanedChannel channel),
      (''streamUrl'', streamUrl),
      (''options'', JObj (sanitizedOptions options)),
      (''timestamp'', JNum (Fin (of_int now))),
      (''version'', JStr ''1.0'')]"

text \<open>
  \<open>savePipState(channel, streamUrl, options = {})\<close> at time \<open>now\<close>: the result and the
  storage afterwards. An exception of \<open>JSON.stringify\<close> or of \<open>setItem\<close> is caught and
  the item is removed. (The \<open>Omitted\<close> case is what the platform does for a value without
  a JSON text; the record, an object, never is one.)
\<close>

definition savePipState :: "jsval \<Rightarrow> jsval \<Rightarrow> jsval \<Rightarrow> int \<Rightarrow> storage \<Rightarrow> bool \<times> storage" where
  "savePipState channel streamUrl options now st =
     (if \<not> truthy channel \<or> \<not> truthy streamUrl then (False, st)
      else
        (case to_json (pip_record channel streamUrl
                        (if options = JUndefined then JObj [] else options) now) of
           Throws \<Rightarrow> (False, removeItem PIP_STATE_KEY st)
         | Omitted \<Rightarrow>
             (case setItem PIP_STATE_KEY (Unparsable ''undefined'') st of
                None \<Rightarrow> (False, removeItem PIP_STATE_KEY st)
              | Some st' \<Rightarrow> (True, st'))
         | Serial v \<Rightarrow>
             (case setItem PIP_STATE_KEY (Json v) st of
                None \<Rightarrow> (False, removeItem PIP_STATE_KEY st)
              | Some st' \<Rightarrow> (True, st'))))"

definition isValidPipState :: "jsval \<Rightarrow> bool" where
  "isValidPipState state =
     (if \<not> truthy state then False
      else
        (let hasChannel = truthy (get_prop state ''channel'')
                          \<and> typeof (get_prop state ''channel'') = ''object'';
             hasName = hasChannel
                       \<and> typeof (get_prop (get_prop state ''channel'') ''name'') = ''string'';
             hasStreamUrl = (case get_prop state ''streamUrl'' of
                               JStr u \<Rightarrow> length u > 5
                             | _ \<Rightarrow> False);
             hasTimestamp = typeof (get_prop state ''timestamp'') = ''number''
         in hasChannel \<and> hasName \<and> hasStreamUrl \<and> hasTimestamp))"

definition clearPipState :: "storage \<Rightarrow> storage" where
  "clearPipState st = removeItem PIP_STATE_KEY st"

text \<open>The number held by a value; used on the timestamp once it is known to be one.\<close>

fun num_of :: "jsval \<Rightarrow> jsnum" where
  "num_of (JNum n) = n"
| "num_of _ = NaN"

definition loadPipState :: "int \<Rightarrow> storage \<Rightarrow> jsval option \<times> storage" where
  "loadPipState now st =
     (case getItem PIP_STATE_KEY st of
        None \<Rightarrow> (None, st)
      | Some (Unparsable s) \<Rightarrow>
          (if s = [] then (None, st) else (None, removeItem PIP_STATE_KEY st))
      | Some (Json state) \<Rightarrow>
          (if \<not> isValidPipState state then (None, clearPipState st)
           else if js_gt (js_sub (Fin (of_int now)) (num_of (get_prop state ''timestamp'')))
                         (Fin PIP_EXPIRY_TIME)
           then (None, clearPipState st)
           else (Some state, st)))"

text \<open>
  The structural validation in the words of the specification: a record fails it when it
  has no channel object, when the channel's name is not a string, when the stream URL is
  not a string longer than 5, or when the timestamp is not a number.
\<close>

definition fails_validation :: "jsval \<Rightarrow> bool" where
  "fails_validation r =
     (typeof (get_prop r ''channel'') \<noteq> ''object'' \<or> get_prop r ''channel'' = JNull
      \<or> typeof (get_prop (get_prop r ''channel'') ''name'') \<noteq> ''string''
      \<or> (case get_prop r ''streamUrl'' of JStr u \<Rightarrow> length u \<le> 5 | _ \<Rightarrow> True)
      \<or> typeof (get_prop r ''timestamp'') \<noteq> ''number'')"

subsection \<open>Sample records\<close>

definition sample_record :: "int \<Rightarrow> jsval" where
  "sample_record t = JObj
     [(''channel'', JObj [(''id'', JNull), (''name'', JStr ''News'')]),
      (''streamUrl'', JStr ''http://tv.example/live.m3u8''),
      (''options'', JObj []),
      (''timestamp'', JNum (Fin (of_int t))),
      (''version'', JStr ''1.0'')]"

definition short_url_record :: jsval where
  "short_url_record = JObj
     [(''channel'', JObj [(''id'', JNull), (''name'', JStr ''News'')]),
      (''streamUrl'', JStr ''a.ts''),
      (''options'', JObj []),
      (''timestamp'', JNum (Fin 0)),
      (''version'', JStr ''1.0'')]"

definition sample_storage :: "jsval \<Rightarrow> storage" where
  "sample_storage r = \<lparr> items = [PIP_STATE_KEY \<mapsto> Json r], setItem_fails = False \<rparr>"

subsection \<open>Reading the persisted record back\<close>

text \<open>The JSON primitives: \<open>null\<close>, booleans, numbers and strings.\<close>

fun is_primitive :: "jsval \<Rightarrow> bool" where
  "is_primitive JNull = True"
| "is_primitive (JBool b) = True"
| "is_primitive (JNum n) = True"
| "is_primitive (JStr s) = True"
| "is_primitive _ = False"

definition stored_record :: "storage \<Rightarrow> jsval" where
  "stored_record st =
     (case getItem PIP_STATE_KEY st of Some (Json r) \<Rightarrow> r | _ \<Rightarrow> JUndefined)"

text \<open>"Only primitive values", read on the options of a record.\<close>

definition primitive_options :: "jsval \<Rightarrow> bool" where
  "primitive_options r =
     list_all (\<lambda>kv. is_primitive (snd kv)) (own_entries (get_prop r ''options''))"

definition sample_channel :: jsval where
  "sample_channel = JObj [(''id'', JStr ''http://tv.example/live.m3u8''), (''name'', JStr ''News'')]"

definition sample_url :: jsval where
  "sample_url = JStr ''http://tv.example/live.m3u8''"

definition empty_storage :: storage where
  "empty_storage = \<lparr> items = Map.empty, setItem_fails = False \<rparr>"

definition mixed_options :: jsval where
  "mixed_options = JObj
     [(''volume'', JNum (Fin 1)),
      (''onClose'', JFunc ''onClose''),
      (''video'', JObj [(''muted'', JBool True)]),
      (''wasMuted'', JBool False)]"

definition nested_options :: jsval where
  "nested_options = JObj [(''tracks'', JArr [JObj [(''lang'', JStr ''en'')]])]"

definition bigint_options :: jsval where
  "bigint_options = JObj [(''position'', JBigInt 7)]"

section \<open>Picture-in-Picture manager (\<open>PictureInPictureContext.jsx\<close>)\<close>

text \<open>
  What the provider reads from the browser: whether Picture-in-Picture and the streaming
  engine are available, and which element, if any, is shown in Picture-in-Picture.
\<close>

datatype pip_element = NoElement | PipVideoElement | OtherElement

record pip_env =
  pipSupported :: bool
  hlsSupported :: bool
  nativeHls :: bool
  pictureInPictureElement :: pip_element

text \<open>The calls made on the browser and on the streaming engine, in the order made.\<close>

datatype effect =
    CreateVideoElement
  | AppendToBody
  | RemoveFromBody
  | AddEventListener string
  | RemoveEventListener string
  | RequestPictureInPicture
  | ExitPictureInPicture
  | HlsCreate
  | HlsOn string
  | HlsLoadSource jsval
  | HlsAttachMedia
  | HlsDestroy
  | SetVideoSrc jsval
  | SetTimeout nat

text \<open>
  The provider's state cells and refs, the session storage and the log of calls. The
  refs hold an element or an engine instance; only their being set is recorded.
\<close>

record pip_manager =
  pipVideo :: bool
  pipChannel :: jsval
  pipError :: "string option"
  isSwitchingPip :: bool
  currentStreamUrl :: jsval
  pipStatus :: string
  pipVideoRef :: bool
  pipHlsRef :: bool
  session :: storage
  effects :: "effect list"

definition do_effects :: "effect list \<Rightarrow> pip_manager \<Rightarrow> pip_manager" where
  "do_effects es m = m\<lparr> effects := effects m @ es \<rparr>"

definition clear_pip_cells :: "pip_manager \<Rightarrow> pip_manager" where
  "clear_pip_cells m =
     m\<lparr> pipVideo := False, pipChannel := JNull, pipError := None,
        currentStreamUrl := JNull, pipStatus := ''inactive'',
        session := clearPipState (session m) \<rparr>"

text \<open>
  \<open>exitPipInternal\<close>: listeners off, leave Picture-in-Picture when our element is the
  one shown, destroy the engine, take the element out of the page, clear the cells and
  the stored record. (The element is in the page from its creation on.)
\<close>

definition exitPipInternal :: "pip_env \<Rightarrow> pip_manager \<Rightarrow> pip_manager" where
  "exitPipInternal env m =
     (let m1 = (if pipVideoRef m
                then do_effects
                       ([RemoveEventListener ''leavepictureinpicture'', RemoveEventListener ''error'']
                        @ (if pictureInPictureElement env = PipVideoElement
                           then [ExitPictureInPicture] else [])) m
                else m);
          m2 = (if pipHlsRef m1 then (do_effects [HlsDestroy] m1)\<lparr> pipHlsRef := False \<rparr> else m1);
          m3 = (if pipVideoRef m2 then (do_effects [RemoveFromBody] m2)\<lparr> pipVideoRef := False \<rparr>
                else m2)
      in clear_pip_cells m3)"

text \<open>
  \<open>cleanupPipResources(force)\<close>; \<open>switching\<close> is the value of \<open>isSwitchingPip\<close> that
  the function closed over.
\<close>

definition cleanupPipResources :: "bool \<Rightarrow> bool \<Rightarrow> pip_env \<Rightarrow> pip_manager \<Rightarrow> pip_manager" where
  "cleanupPipResources force switching env m =
     (if switching \<and> \<not> force then m
      else
        (let m1 = (if pipVideoRef m
                   then do_effects
                          ([RemoveEventListener ''leavepictureinpicture'',
                            RemoveEventListener ''error'']
                           @ (if pictureInPictureElement env = PipVideoElement
                              then [ExitPictureInPicture] else [])) m
                   else m);
             m2 = (if pipHlsRef m1 then (do_effects [HlsDestroy] m1)\<lparr> pipHlsRef := False \<rparr>
                   else m1);
             m3 = (if pipVideoRef m2 then do_effects [RemoveFromBody] m2 else m2)
         in clear_pip_cells (m3\<lparr> pipVideoRef := False \<rparr>)))"

text \<open>
  The part of \<open>enterPiP\<close> that runs when the request carries the user-gesture flag, up
  to the point where the function returns; the engine's events arrive later. The state
  cells read by the function (\<open>pipVideo\<close>, \<open>isSwitchingPip\<close>) are those of the state
  \<open>m0\<close> in which it was called.
\<close>

definition enterPiP_setup ::
  "pip_env \<Rightarrow> int \<Rightarrow> jsval \<Rightarrow> jsval \<Rightarrow> jsval \<Rightarrow> pip_manager \<Rightarrow> pip_manager \<Rightarrow> pip_manager" where
  "enterPiP_setup env now channel streamUrl options m0 m =
     (let m1 = m\<lparr> isSwitchingPip := True, pipError := None, pipStatus := ''initializing'' \<rparr>;
          m2 = (if pictureInPictureElement env \<noteq> NoElement \<or> pipVideo m0
                then exitPipInternal env m1 else m1);
          m3 = (do_effects [CreateVideoElement, AppendToBody,
                            AddEventListener ''leavepictureinpicture'',
                            AddEventListener ''error''] m2)
                 \<lparr> pipVideoRef := True, currentStreamUrl := streamUrl, pipChannel := channel \<rparr>;
          m4 = m3\<lparr> session := snd (savePipState channel streamUrl
                                     (spread_with options ''pendingPiP'' (JBool False))
                                     now (session m3)) \<rparr>;
          m5 = (if hlsSupported env
                then (do_effects [HlsCreate, HlsOn ''hlsMediaAttached'', HlsOn ''hlsManifestParsed'',
                                  HlsOn ''hlsError'', HlsLoadSource streamUrl, HlsAttachMedia,
                                  SetTimeout 10000] m4)
                       \<lparr> pipStatus := ''loading'', pipHlsRef := True \<rparr>
                else if nativeHls env
                then (do_effects [SetVideoSrc streamUrl, AddEventListener ''loadedmetadata'',
                                  SetTimeout 10000] m4)
                       \<lparr> pipStatus := ''loading'' \<rparr>
                else (cleanupPipResources False (isSwitchingPip m0) env
                        (m4\<lparr> pipStatus := ''error'' \<rparr>))
                       \<lparr> pipError := Some ''Failed to setup PiP: HLS is not supported in this browser'' \<rparr>)
      in do_effects [SetTimeout 1000] m5)"

text \<open>
  \<open>enterPiP(channel, streamUrl, options = {})\<close> at time \<open>now\<close>. Reading
  \<open>options.fromUserGesture\<close> when \<open>options\<close> is \<open>null\<close> throws outside the
  \<open>try\<close> block: the promise is rejected, the updates made so far stay.
\<close>

datatype completion = Returned | Rejected

definition enterPiP ::
  "pip_env \<Rightarrow> int \<Rightarrow> jsval \<Rightarrow> jsval \<Rightarrow> jsval \<Rightarrow> pip_manager \<Rightarrow> completion \<times> pip_manager" where
  "enterPiP env now channel streamUrl options0 m =
     (let options = (if options0 = JUndefined then JObj [] else options0) in
      if \<not> pipSupported env
      then (Returned, m\<lparr> pipError := Some ''Picture-in-Picture not supported in this browser'' \<rparr>)
      else if \<not> truthy channel \<or> \<not> truthy streamUrl then (Returned, m)
      else
        (let m1 = m\<lparr> session := snd (savePipState channel streamUrl
                                      (spread_with options ''pendingPiP'' (JBool True))
                                      now (session m)),
                     pipChannel := channel \<rparr>
         in if options = JNull then (Rejected, m1)
            else if \<not> truthy (get_prop options ''fromUserGesture'')
            then (Returned, m1\<lparr> pipStatus := ''pending'',
                                 pipError := Some ''Click to activate PiP'' \<rparr>)
            else (Returned, enterPiP_setup env now channel streamUrl options m m1)))"

definition initial_pip_manager :: pip_manager where
  "initial_pip_manager =
     \<lparr> pipVideo = False, pipChannel = JNull, pipError = None, isSwitchingPip = False,
       currentStreamUrl = JNull, pipStatus = ''inactive'', pipVideoRef = False,
       pipHlsRef = False, session = empty_storage, effects = [] \<rparr>"

definition modern_browser :: pip_env where
  "modern_browser = \<lparr> pipSupported = True, hlsSupported = True, nativeHls = False,
                      pictureInPictureElement = NoElement \<rparr>"

definition old_browser :: pip_env where
  "old_browser = \<lparr> pipSupported = False, hlsSupported = True, nativeHls = False,
                   pictureInPictureElement = NoElement \<rparr>"

definition player_options :: jsval where
  "player_options = JObj [(''volume'', JNum (Fin 1)), (''wasMuted'', JBool False),
                          (''isLive'', JBool True)]"

section \<open>Player: resolving a channel reference\<close>

subsection \<open>Strings\<close>

text \<open>
  \<open>toLowerCase\<close>, \<open>endsWith\<close> and \<open>includes\<close> (here \<open>includes_str\<close>) on strings of 8-bit characters
  (lower-casing touches the letters \<open>A\<close> to \<open>Z\<close>).
\<close>

definition lower_char :: "char \<Rightarrow> char" where
  "lower_char c =
     (case map_of (zip ''ABCDEFGHIJKLMNOPQRSTUVWXYZ'' ''abcdefghijklmnopqrstuvwxyz'') c of
        Some l \<Rightarrow> l
      | None \<Rightarrow> c)"

definition toLowerCase :: "string \<Rightarrow> string" where
  "toLowerCase s = map lower_char s"

definition endsWith :: "string \<Rightarrow> string \<Rightarrow> bool" where
  "endsWith s suf = (length suf \<le> length s \<and> drop (length s - length suf) s = suf)"

fun includes_str :: "string \<Rightarrow> string \<Rightarrow> bool" where
  "includes_str [] sub = (sub = [])"
| "includes_str (c # cs) sub = (prefix sub (c # cs) \<or> includes_str cs sub)"

subsection \<open>Platform and directory\<close>

text \<open>
  The browser functions the resolver calls are parameters: \<open>decodeURIComponent\<close>
  gives the decoded text or throws (\<open>Inl\<close> holds the message of the error), and
  \<open>url_pathname u\<close> is the \<open>pathname\<close> of \<open>new URL(u)\<close>, or \<open>None\<close> when the
  constructor throws.
\<close>

record platform =
  decodeURIComponent :: "string \<Rightarrow> string + string"
  url_pathname :: "string \<Rightarrow> string option"

text \<open>
  The Channel Directory Service (\<open>apiClient\<close>): each call resolves to a value, possibly
  \<open>null\<close>, or rejects.
\<close>

datatype reply = Resolves jsval | Rejects

record directory =
  getChannelDetails :: "jsval \<Rightarrow> reply"
  findChannel :: "jsval \<Rightarrow> reply"

datatype dir_call = GetChannelDetails jsval | FindChannel jsval

subsection \<open>The shared cache of \<open>isDirectStreamUrl\<close> and \<open>extractChannelId\<close>\<close>

text \<open>\<open>urlCache\<close>, a \<open>Map\<close>: \<open>has\<close> and \<open>get\<close> read it, \<open>set\<close> binds a key.\<close>

type_synonym url_cache = "(string \<times> jsval) list"

definition direct_by_extension :: "platform \<Rightarrow> string \<Rightarrow> bool" where
  "direct_by_extension pf url =
     (case url_pathname pf url of
        None \<Rightarrow> False
      | Some p \<Rightarrow>
          (let path = toLowerCase p
           in endsWith path ''.m3u8'' \<or> endsWith path ''.m3u'' \<or> endsWith path ''.ts''))"

definition isDirectStreamUrl :: "platform \<Rightarrow> url_cache \<Rightarrow> string \<Rightarrow> jsval \<times> url_cache" where
  "isDirectStreamUrl pf cache url =
     (if url = [] then (JBool False, cache)
      else
        (case map_of cache url of
           Some v \<Rightarrow> (v, cache)
         | None \<Rightarrow>
             (case url_pathname pf url of
                Some p \<Rightarrow>
                  (let path = toLowerCase p;
                       result = (endsWith path ''.m3u8'' \<or> endsWith path ''.m3u''
                                 \<or> endsWith path ''.ts'')
                   in (JBool result, AList.update url (JBool result) cache))
              | None \<Rightarrow> (JBool False, AList.update url (JBool False) cache))))"

text \<open>Both branches of the \<open>try\<close> around \<open>new URL(id)\<close> do the same.\<close>

definition extractChannelId :: "url_cache \<Rightarrow> string \<Rightarrow> jsval \<times> url_cache" where
  "extractChannelId cache ident =
     (if ident = [] then (JNull, cache)
      else
        (let cacheKey = ''channelId:'' @ ident
         in (case map_of cache cacheKey of
               Some v \<Rightarrow> (v, cache)
             | None \<Rightarrow> (JStr ident, AList.update cacheKey (JStr ident) cache))))"

text \<open>
  What the two functions leave in the cache: under a key, the verdict computed for that
  key, or, under \<open>channelId:\<close> followed by a non-empty identifier, that identifier.
\<close>

definition cache_entry_ok :: "platform \<Rightarrow> string \<times> jsval \<Rightarrow> bool" where
  "cache_entry_ok pf kv =
     (case snd kv of
        JBool b \<Rightarrow> b = direct_by_extension pf (fst kv)
      | JStr i \<Rightarrow> i \<noteq> [] \<and> fst kv = ''channelId:'' @ i
      | _ \<Rightarrow> False)"

definition cache_ok :: "platform \<Rightarrow> url_cache \<Rightarrow> bool" where
  "cache_ok pf cache = list_all (cache_entry_ok pf) cache"

subsection \<open>\<open>resolveAndLoadStream\<close>\<close>

text \<open>
  The outcome of the resolving phase: the stream URL and the channel data handed to
  \<open>loadChannelDetails\<close>, or the error text shown (with the loading indicator off), or
  nothing when the component was unmounted meanwhile.
\<close>

datatype resolved = Stream jsval jsval | Failure string | Abandoned

definition has_stream_url :: "jsval \<Rightarrow> string + jsval" where
  "has_stream_url channelData =
     (if truthy (get_prop channelData ''url'') then Inr channelData
      else Inl ''Channel found but no stream URL available'')"

text \<open>
  The lookups of the \<open>try\<close> block: by id, and by name only when the first reply is
  empty; a rejected call is caught. The calls made are returned with the result.
\<close>

definition query_directory :: "directory \<Rightarrow> jsval \<Rightarrow> (string + jsval) \<times> dir_call list" where
  "query_directory dir channelId =
     (case getChannelDetails dir channelId of
        Rejects \<Rightarrow>
          (Inl ''Could not find stream URL for this channel'', [GetChannelDetails channelId])
      | Resolves d \<Rightarrow>
          if truthy d then (has_stream_url d, [GetChannelDetails channelId])
          else
            (case findChannel dir channelId of
               Rejects \<Rightarrow>
                 (Inl ''Could not find stream URL for this channel'',
                  [GetChannelDetails channelId, FindChannel channelId])
             | Resolves d' \<Rightarrow>
                 (has_stream_url d',
                  [GetChannelDetails channelId, FindChannel channelId])))"

definition channel_from_api :: "jsval \<Rightarrow> jsval \<Rightarrow> jsval" where
  "channel_from_api finalStreamUrl channelData = JObj
     [(''id'', finalStreamUrl),
      (''name'', js_or (get_prop channelData ''name'') (JStr ''Unknown Channel'')),
      (''logo'', get_prop channelData ''logo''),
      (''group'', js_or (get_prop channelData ''group'') (get_prop channelData ''category'')),
      (''channelId'', get_prop channelData ''id'')]"

text \<open>
  The result: the outcome, the directory calls made, the argument of \<open>setChannel\<close> if it
  was called, and the cache. \<open>mounted\<close> is the value of \<open>isMounted\<close> once the lookups
  have completed; without a lookup nothing is awaited and the flag still has its initial
  value \<open>true\<close>.
\<close>

definition resolveAndLoadStream ::
  "platform \<Rightarrow> directory \<Rightarrow> bool \<Rightarrow> url_cache \<Rightarrow> string
     \<Rightarrow> resolved \<times> dir_call list \<times> jsval option \<times> url_cache" where
  "resolveAndLoadStream pf dir mounted cache ident =
     (case decodeURIComponent pf ident of
        Inl msg \<Rightarrow>
          (Failure (''Error loading stream: '' @ (if msg = [] then ''Unknown error'' else msg)),
           [], None, cache)
      | Inr decodedId \<Rightarrow>
          (case isDirectStreamUrl pf cache decodedId of (direct, cache1) \<Rightarrow>
             if truthy direct then (Stream (JStr decodedId) JNull, [], None, cache1)
             else
               (case extractChannelId cache1 decodedId of (channelId, cache2) \<Rightarrow>
                  if \<not> truthy channelId then (Stream (JStr decodedId) JNull, [], None, cache2)
                  else
                    (case query_directory dir channelId of
                       (Inl msg, calls) \<Rightarrow> (Failure msg, calls, None, cache2)
                     | (Inr channelData, calls) \<Rightarrow>
                         (let finalStreamUrl = get_prop channelData ''url''
                          in if mounted
                             then (Stream finalStreamUrl channelData, calls,
                                   Some (channel_from_api finalStreamUrl channelData), cache2)
                             else (Abandoned, calls, None, cache2))))))"

subsection \<open>Sample platform and directories\<close>

definition sample_platform :: platform where
  "sample_platform =
     \<lparr> decodeURIComponent = Inr,
       url_pathname = (\<lambda>u. if u = ''http://tv.example/live.M3U8'' then Some ''/live.M3U8''
                            else None) \<rparr>"

text \<open>
  The values of the two browser functions at a reference with an escaped question mark,
  at an escaped URL, and at their decoded forms; elsewhere decoding changes nothing and
  nothing parses.
\<close>

definition escaping_platform :: platform where
  "escaping_platform =
     \<lparr> decodeURIComponent =
         (\<lambda>s. if s = ''http://h/a%3Fb.m3u8'' then Inr ''http://h/a?b.m3u8''
               else if s = ''http%3A%2F%2Fh%2Flive.m3u8'' then Inr ''http://h/live.m3u8''
               else Inr s),
       url_pathname =
         (\<lambda>u. if u = ''http://h/a%3Fb.m3u8'' then Some ''/a%3Fb.m3u8''
               else if u = ''http://h/a?b.m3u8'' then Some ''/a''
               else if u = ''http://h/live.m3u8'' then Some ''/live.m3u8''
               else None) \<rparr>"

definition empty_directory :: directory where
  "empty_directory =
     \<lparr> getChannelDetails = (\<lambda>c. Resolves JNull), findChannel = (\<lambda>c. Resolves JNull) \<rparr>"

definition url_on_second_lookup :: directory where
  "url_on_second_lookup =
     \<lparr> getChannelDetails = (\<lambda>c. Resolves (JObj [(''name'', JStr ''News'')])),
       findChannel = (\<lambda>c. Resolves (JObj [(''name'', JStr ''News''),
                                            (''url'', JStr ''http://tv.example/live.m3u8'')])) \<rparr>"

definition found_by_name :: directory where
  "found_by_name =
     \<lparr> getChannelDetails = (\<lambda>c. Resolves JNull),
       findChannel = (\<lambda>c. Resolves (JObj [(''name'', JStr ''News''),
                                            (''url'', JStr ''http://tv.example/live.m3u8'')])) \<rparr>"

text \<open>
  What resolution does with the first non-empty reply \<open>d\<close> of the directory, after the
  calls \<open>calls\<close>: the reply's URL is the stream URL, or resolution fails.
\<close>

definition after_hit ::
  "bool \<Rightarrow> url_cache \<Rightarrow> dir_call list \<Rightarrow> jsval
     \<Rightarrow> resolved \<times> dir_call list \<times> jsval option \<times> url_cache" where
  "after_hit mounted cache calls d =
     (if truthy (get_prop d ''url'')
      then if mounted
           then (Stream (get_prop d ''url'') d, calls,
                 Some (channel_from_api (get_prop d ''url'') d), cache)
           else (Abandoned, calls, None, cache)
      else (Failure ''Channel found but no stream URL available'', calls, None, cache))"

section \<open>Player: engine errors\<close>

text \<open>
  The error event of the streaming engine, as far as the handler reads it:
  \<open>data.type\<close>, \<open>data.details\<close>, \<open>data.fatal\<close>, \<open>data.response\<close> (code and text, the
  text empty when absent), \<open>data.networkDetails\<close> (status and status text of the
  request) and the message of \<open>data.error\<close> (empty when the error object has none).
\<close>

record hls_error =
  etype :: string
  details :: string
  fatal :: bool
  response :: "(nat \<times> string) option"
  networkDetails :: "(nat \<times> string) option"
  error_message :: "string option"

text \<open>The engine's constants \<open>Hls.ErrorTypes\<close> and \<open>Hls.ErrorDetails\<close>.\<close>

definition NETWORK_ERROR :: string where
  "NETWORK_ERROR = ''networkError''"

definition MEDIA_ERROR :: string where
  "MEDIA_ERROR = ''mediaError''"

definition MANIFEST_LOAD_ERROR :: string where
  "MANIFEST_LOAD_ERROR = ''manifestLoadError''"

text \<open>
  What else the handler depends on: whether the video element is playing, the local flag
  \<open>autoplayAttempted\<close>, the host names of the stream URL and of the page's reference
  (\<open>None\<close> when \<open>new URL\<close> throws), and whether the engine's \<open>startLoad\<close> and
  \<open>recoverMediaError\<close> throw.
\<close>

record handler_ctx =
  video_playing :: bool
  autoplayAttempted :: bool
  stream_hostname :: "string option"
  id_hostname :: "string option"
  startLoad_throws :: bool
  recoverMediaError_throws :: bool

datatype engine_action = StartLoad | RecoverMediaError | ScheduleReload | Uncaught

definition handleInvalidStream :: "string option \<Rightarrow> string \<Rightarrow> player \<Rightarrow> player" where
  "handleInvalidStream hostname reason p =
     (let isDNSError = (includes_str reason ''ERR_NAME_NOT_RESOLVED''
                        \<or> includes_str reason ''status 0''
                        \<or> includes_str reason ''unavailable''
                        \<or> includes_str reason ''could not be reached'');
          isGeoRestricted = (includes_str reason ''403''
                             \<or> includes_str reason ''451''
                             \<or> includes_str reason ''geo''
                             \<or> includes_str reason ''restricted''
                             \<or> includes_str reason ''not available in your region'')
      in (case hostname of
            Some h \<Rightarrow>
              if isDNSError
              then p\<lparr> error := ''Stream server not found'',
                      errorDetails := ''The server '' @ h @ '' couldn't be reached. This channel may no longer be active or its address has changed.'',
                      loading := False \<rparr>
              else if isGeoRestricted
              then p\<lparr> error := ''Stream may be geo-restricted'',
                      errorDetails := ''The channel at '' @ h @ '' appears to be geo-restricted and may not be available in your region.'',
                      loading := False \<rparr>
              else p\<lparr> error := ''Stream failed to load'',
                      errorDetails := ''There was a problem loading the stream from '' @ h @ ''. '' @ reason,
                      loading := False \<rparr>
          | None \<Rightarrow>
              p\<lparr> error := ''Stream failed to load: '' @ reason,
                 errorDetails := ''The stream could not be loaded. This could be due to the channel being offline, geo-restricted, or a network issue.'',
                 loading := False \<rparr>))"

definition isCorsError :: "hls_error \<Rightarrow> bool" where
  "isCorsError data =
     ((case response data of Some r \<Rightarrow> fst r = 0 | None \<Rightarrow> False)
      \<or> (case response data of
            Some r \<Rightarrow> snd r \<noteq> [] \<and> includes_str (snd r) ''CORS''
          | None \<Rightarrow> False)
      \<or> (case error_message data of Some m \<Rightarrow> includes_str m ''CORS'' | None \<Rightarrow> False)
      \<or> (etype data = ''networkError'' \<and> details data = ''manifestLoadError''))"

definition cors_details :: string where
  "cors_details = ''This stream doesn't allow playback from this website due to CORS restrictions. Try using a native player or browser extension to access this content.''"

definition is_reference_error :: "hls_error \<Rightarrow> bool" where
  "is_reference_error data =
     (case error_message data of
        Some m \<Rightarrow> m \<noteq> [] \<and> (includes_str m ''autoplayAttempted'' \<or> includes_str m ''undefined'')
      | None \<Rightarrow> False)"

text \<open>\<open>hls.startLoad()\<close> inside \<open>try\<close>, after a fatal network error past the first load.\<close>

definition restart_load :: "handler_ctx \<Rightarrow> player \<Rightarrow> player \<times> engine_action list" where
  "restart_load ctx p =
     (if startLoad_throws ctx
      then (handleInvalidStream (id_hostname ctx)
              ''Failed to restart stream after network error'' p, [StartLoad])
      else (p, [StartLoad]))"

definition unreachable_host :: "hls_error \<Rightarrow> bool" where
  "unreachable_host data =
     ((case networkDetails data of Some n \<Rightarrow> fst n = 0 | None \<Rightarrow> False)
      \<or> (case networkDetails data of Some n \<Rightarrow> snd n = [] | None \<Rightarrow> False)
      \<or> (case response data of
            Some r \<Rightarrow> includes_str (snd r) ''ERR_NAME_NOT_RESOLVED''
          | None \<Rightarrow> False))"

definition network_error_details :: "hls_error \<Rightarrow> string" where
  "network_error_details data =
     ''Network error: '' @
       (case response data of
          Some r \<Rightarrow> ''Server responded with '' @ index_key (fst r) @ '' ('' @ snd r @ '')''
        | None \<Rightarrow> ''Name resolution failed or server unreachable'')"

text \<open>
  The handler of \<open>Hls.Events.ERROR\<close> set up by \<open>setupHlsPlayer\<close>. The state \<open>p\<close> holds
  the values of \<open>loading\<close>, \<open>retryCount\<close> and \<open>streamLoaded\<close> that the handler's
  closure sees. The result is the state after the setter calls and the engine calls made;
  \<open>Uncaught\<close> marks an exception that leaves the handler.
\<close>

definition on_hls_error :: "handler_ctx \<Rightarrow> hls_error \<Rightarrow> player \<Rightarrow> player \<times> engine_action list" where
  "on_hls_error ctx data p =
     (if streamLoaded p \<and> video_playing ctx then (p, [])
      else if isCorsError data
      then (p\<lparr> errorDetails := cors_details,
               error := ''Stream access restricted (CORS policy)'',
               loading := False \<rparr>, [])
      else if etype data = ''otherError'' \<and> details data = ''internalException''
              \<and> is_reference_error data
      then (p, [ScheduleReload])
      else if \<not> fatal data then (p, [])
      else if etype data = NETWORK_ERROR
      then
        (if loading p \<and> \<not> autoplayAttempted ctx then (p, [StartLoad])
         else if details data = MANIFEST_LOAD_ERROR
         then
           (let p1 = p\<lparr> errorDetails := network_error_details data \<rparr>
            in if retryCount p > 0 \<and> unreachable_host data
               then (case stream_hostname ctx of
                       None \<Rightarrow> (p1, [Uncaught])
                     | Some h \<Rightarrow>
                         (handleInvalidStream (id_hostname ctx)
                            (''Stream unavailable: The server '' @ h @ '' couldn't be reached. This channel may no longer be active.'')
                            p1, []))
               else restart_load ctx p1)
         else restart_load ctx p)
      else if etype data = MEDIA_ERROR
      then (if recoverMediaError_throws ctx
            then (handleInvalidStream (id_hostname ctx)
                    ''Failed to recover from media error'' p, [RecoverMediaError])
            else (p, [RecoverMediaError]))
      else (handleInvalidStream (id_hostname ctx)
              (''Fatal streaming error: '' @ details data) p, []))"

text \<open>A session is in its terminal error state when an error text is shown and loading is off.\<close>

definition terminal_error :: "player \<Rightarrow> bool" where
  "terminal_error p = (error p \<noteq> [] \<and> \<not> loading p)"

subsection \<open>Sample events\<close>

definition zero_status_error :: hls_error where
  "zero_status_error =
     \<lparr> etype = ''networkError'', details = ''manifestLoadError'', fatal = True,
       response = Some (0, ''''), networkDetails = Some (0, ''''), error_message = None \<rparr>"

definition playing_ctx :: handler_ctx where
  "playing_ctx =
     \<lparr> video_playing = False, autoplayAttempted = True,
       stream_hostname = Some ''tv.example'', id_hostname = Some ''tv.example'',
       startLoad_throws = False, recoverMediaError_throws = False \<rparr>"

definition player_after_retries :: "nat \<Rightarrow> player" where
  "player_after_retries n =
     \<lparr> loading = False, error = '''', errorDetails = '''', retryCount = n,
       streamLoaded = False \<rparr>"

section \<open>Player: a session with manual retries\<close>









section \<open>Player: live or seekable\<close>

text \<open>
  What the handlers read from the video element at an event: the position, the duration
  (\<open>NaN\<close> before the metadata is known, \<open>Infinity\<close> for a live stream), the ready
  state, and the buffered and seekable ranges as lists of (start, end).
\<close>

record video_sample =
  v_currentTime :: real
  v_duration :: jsnum
  v_readyState :: nat
  v_buffered :: "(real \<times> real) list"
  v_seekable :: "(real \<times> real) list"

text \<open>
  The state cells written by the handlers, and the counter \<open>_liveChecks\<close> kept on the
  video element (read as \<open>_liveChecks || 0\<close>, so an unset counter is 0).
\<close>

record classifier =
  isLive :: bool
  showTimeline :: bool
  liveDetectionComplete :: bool
  liveChecks :: nat
  currentTime :: real
  duration :: jsnum
  progress :: real
  bufferedProgress :: real

definition initial_classifier :: classifier where
  "initial_classifier =
     \<lparr> isLive = False, showTimeline = False, liveDetectionComplete = False, liveChecks = 0,
       currentTime = 0, duration = Fin 0, progress = 0, bufferedProgress = 0 \<rparr>"

text \<open>
  \<open>handleTimeUpdate\<close>. The effect that installs the handlers depends on \<open>isDragging\<close>,
  \<open>isLive\<close> and \<open>showTimeline\<close> only, so the value of \<open>liveDetectionComplete\<close> that the
  handler tests is the one of the render that installed it: it is the parameter
  \<open>seenComplete\<close>.
\<close>

definition handleTimeUpdate :: "bool \<Rightarrow> bool \<Rightarrow> video_sample \<Rightarrow> classifier \<Rightarrow> classifier" where
  "handleTimeUpdate isDragging seenComplete v s =
     (if isDragging then s
      else
        (let s1 = s\<lparr> currentTime := v_currentTime v \<rparr>;
             s2 = (case v_duration v of
                     Fin d \<Rightarrow>
                       if d > 0
                       then (let s' = s1\<lparr> duration := Fin d,
                                           progress := v_currentTime v / d * 100 \<rparr>
                             in if v_buffered v \<noteq> []
                                then s'\<lparr> bufferedProgress := snd (last (v_buffered v)) / d * 100 \<rparr>
                                else s')
                       else s1
                   | _ \<Rightarrow> s1)
         in if \<not> seenComplete \<and> v_readyState v \<ge> 3
            then (let s3 = s2\<lparr> liveDetectionComplete := True \<rparr>
                  in if v_duration v = PosInf
                     then s3\<lparr> isLive := True, showTimeline := False \<rparr>
                     else if js_gt (v_duration v) (Fin 0) \<and> js_lt (v_duration v) PosInf
                     then s3\<lparr> isLive := False, showTimeline := True \<rparr>
                     else s3)
            else s2))"

definition handleDurationChange :: "video_sample \<Rightarrow> classifier \<Rightarrow> classifier" where
  "handleDurationChange v s =
     (if \<not> num_truthy (v_duration v) \<or> js_le (v_duration v) (Fin 0) then s
      else
        (let s1 = s\<lparr> duration := v_duration v \<rparr>
         in if v_duration v = PosInf
            then s1\<lparr> isLive := True, showTimeline := False, liveDetectionComplete := True \<rparr>
            else if js_gt (v_duration v) (Fin 120)
            then s1\<lparr> isLive := False, showTimeline := True, liveDetectionComplete := True \<rparr>
            else s1))"

definition checkStreamType :: "video_sample \<Rightarrow> classifier \<Rightarrow> classifier" where
  "checkStreamType v s =
     (if v_readyState v < 2 then s
      else if v_currentTime v \<le> 0 then s
      else
        (case v_duration v of
           Fin d \<Rightarrow>
             if d > 0
             then
               (let timeFromEnd = d - v_currentTime v
                in if d > 120
                   then (if isLive s then s\<lparr> isLive := False, showTimeline := True \<rparr> else s)
                   else if timeFromEnd < 3
                   then
                     (let consistentEndChecks = liveChecks s;
                          s1 = s\<lparr> liveChecks := consistentEndChecks + 1 \<rparr>
                      in if consistentEndChecks > 5
                         then s1\<lparr> isLive := True, showTimeline := False \<rparr>
                         else s1)
                   else
                     (let s1 = s\<lparr> liveChecks := 0 \<rparr>
                      in if \<not> showTimeline s \<and> v_seekable v \<noteq> []
                         then (let seekableEnd = snd (hd (v_seekable v));
                                   seekableStart = fst (hd (v_seekable v))
                               in if seekableEnd - seekableStart > 30
                                  then s1\<lparr> showTimeline := True, isLive := False \<rparr>
                                  else s1)
                         else s1))
             else s
         | _ \<Rightarrow> s))"

text \<open>The telemetry events and their handlers; a sequence of events is fed in order.\<close>

datatype telemetry =
    TimeUpdate bool bool video_sample
  | DurationChange video_sample
  | StreamTypeCheck video_sample

fun event_sample :: "telemetry \<Rightarrow> video_sample" where
  "event_sample (TimeUpdate dragging seen v) = v"
| "event_sample (DurationChange v) = v"
| "event_sample (StreamTypeCheck v) = v"

fun feed :: "telemetry \<Rightarrow> classifier \<Rightarrow> classifier" where
  "feed (TimeUpdate dragging seen v) s = handleTimeUpdate dragging seen v s"
| "feed (DurationChange v) s = handleDurationChange v s"
| "feed (StreamTypeCheck v) s = checkStreamType v s"

definition feed_all :: "telemetry list \<Rightarrow> classifier \<Rightarrow> classifier" where
  "feed_all es s = fold feed es s"

text \<open>The two kinds of duration that make a classification terminal.\<close>

definition reports_live :: "telemetry \<Rightarrow> bool" where
  "reports_live e = (v_duration (event_sample e) = PosInf)"

definition reports_long :: "telemetry \<Rightarrow> bool" where
  "reports_long e = (case v_duration (event_sample e) of Fin d \<Rightarrow> d > 120 | _ \<Rightarrow> False)"

subsection \<open>Sample telemetry\<close>

definition live_sample :: video_sample where
  "live_sample = \<lparr> v_currentTime = 10, v_duration = PosInf, v_readyState = 4,
                   v_buffered = [(0, 12)], v_seekable = [(0, 12)] \<rparr>"

definition long_sample :: video_sample where
  "long_sample = \<lparr> v_currentTime = 10, v_duration = Fin 200, v_readyState = 4,
                   v_buffered = [(0, 40)], v_seekable = [(0, 200)] \<rparr>"

section \<open>Player: watch history\<close>

text \<open>
  The store behind \<open>get\<close> and \<open>set\<close> of \<open>idbStorage\<close>, restricted to the keys
  \<open>watchHistory\<close> and \<open>favorites\<close>. \<open>get\<close> catches every error and resolves to the
  stored value or to \<open>undefined\<close>: the two fields are the values it resolves to. \<open>set\<close> catches every
  error too and resolves to \<open>false\<close> then, leaving the store as it was: whether it does
  is the input \<open>set_fails\<close>. (The encoding that \<open>idbStorage\<close> applies to large values
  and its cache are not modelled: a value stored is the value read.)
\<close>

record history_store =
  watchHistory :: jsval
  favorites :: jsval
  set_fails :: bool

text \<open>
  \<open>item.channel.id\<close>: reading it throws a \<open>TypeError\<close> when the item or its channel is
  \<open>null\<close> or \<open>undefined\<close> (\<open>None\<close>).
\<close>

definition nullish :: "jsval \<Rightarrow> bool" where
  "nullish v = (v = JNull \<or> v = JUndefined)"

definition item_channel_id :: "jsval \<Rightarrow> jsval option" where
  "item_channel_id item =
     (if nullish item then None
      else if nullish (get_prop item ''channel'') then None
      else Some (get_prop (get_prop item ''channel'') ''id''))"

text \<open>The name, channel id, group and logo that \<open>loadChannelDetails\<close> has settled on.\<close>

record channel_meta =
  meta_name :: jsval
  meta_channelId :: jsval
  meta_group :: jsval
  meta_logo :: jsval

definition channelData_of :: "string \<Rightarrow> channel_meta \<Rightarrow> jsval" where
  "channelData_of streamUrl meta = JObj
     [(''id'', JStr streamUrl),
      (''name'', meta_name meta),
      (''channelId'', meta_channelId meta),
      (''group'', meta_group meta),
      (''logo'', meta_logo meta)]"

definition newHistoryItem :: "int \<Rightarrow> string \<Rightarrow> channel_meta \<Rightarrow> jsval" where
  "newHistoryItem now streamUrl meta = JObj
     [(''timestamp'', JNum (Fin (of_int now))),
      (''channel'', channelData_of streamUrl meta)]"

text \<open>
  \<open>[newHistoryItem, ...history.filter(item => item.channel.id !== streamUrl)].slice(0, 100)\<close>,
  on a history all of whose items have a channel.
\<close>

definition updatedHistory :: "int \<Rightarrow> string \<Rightarrow> channel_meta \<Rightarrow> jsval list \<Rightarrow> jsval list" where
  "updatedHistory now streamUrl meta history =
     take 100 (newHistoryItem now streamUrl meta
               # filter (\<lambda>item. item_channel_id item \<noteq> Some (JStr streamUrl)) history)"

text \<open>
  \<open>favorites.find(fav => fav.id === streamUrl)\<close>, and \<open>favorites.some\<close> with the same
  callback: whether a favourite matches, or \<open>None\<close> when reading \<open>fav.id\<close> throws
  before a match is found.
\<close>

fun favorites_scan :: "string \<Rightarrow> jsval list \<Rightarrow> bool option" where
  "favorites_scan u [] = Some False"
| "favorites_scan u (fav # favs) =
     (if nullish fav then None
      else if get_prop fav ''id'' = JStr u then Some True
      else favorites_scan u favs)"

text \<open>
  The part of \<open>loadChannelDetails\<close> that reads the watch history and the favourites
  and rewrites the watch history. How the name, group, logo and channel id are chosen
  among the API data, the favourite, the old history entry and the URL is not modelled:
  the choice is the parameter \<open>meta\<close>. The result is the failure or the channel that is
  opened, and the store. The failures: the error text "Invalid stream URL", and the text
  "Error loading stream: " followed by the message of the exception caught, a
  \<open>TypeError\<close> raised on a stored value that is not an array, on a history item without
  channel (\<open>find\<close> stops at the first match, \<open>filter\<close> visits every item; either
  throw is caught alike) or on a favourite that is \<open>null\<close>. The result of \<open>set\<close> is
  not looked at: when the write fails the channel is opened all the same.
\<close>

datatype load_failure = InvalidStreamUrl | ErrorLoadingStream

definition loadChannelDetails ::
  "int \<Rightarrow> string \<Rightarrow> channel_meta \<Rightarrow> history_store
     \<Rightarrow> (load_failure + jsval) \<times> history_store" where
  "loadChannelDetails now streamUrl meta store =
     (if streamUrl = [] then (Inl InvalidStreamUrl, store)
      else
        (case js_or (watchHistory store) (JArr []) of
           JArr history \<Rightarrow>
             (case js_or (favorites store) (JArr []) of
                JArr favs \<Rightarrow>
                  if favorites_scan streamUrl favs = None
                  then (Inl ErrorLoadingStream, store)
                  else if list_ex (\<lambda>item. item_channel_id item = None) history
                  then (Inl ErrorLoadingStream, store)
                  else (Inr (channelData_of streamUrl meta),
                        if set_fails store then store
                        else store\<lparr> watchHistory :=
                               JArr (updatedHistory now streamUrl meta history) \<rparr>)
              | _ \<Rightarrow> (Inl ErrorLoadingStream, store))
         | _ \<Rightarrow> (Inl ErrorLoadingStream, store)))"

text \<open>The history that \<open>loadChannelDetails\<close> reads: \<open>await get('watchHistory') || []\<close>.\<close>

definition stored_history :: "history_store \<Rightarrow> jsval list" where
  "stored_history store =
     (case js_or (watchHistory store) (JArr []) of JArr h \<Rightarrow> h | _ \<Rightarrow> [])"

text \<open>The channel ids of a history, entry by entry.\<close>

definition history_ids :: "jsval list \<Rightarrow> jsval option list" where
  "history_ids h = map item_channel_id h"

subsection \<open>Sample histories\<close>

definition plain_meta :: channel_meta where
  "plain_meta = \<lparr> meta_name = JStr ''News'', meta_channelId = JNull,
                  meta_group = JStr ''Uncategorized'', meta_logo = JNull \<rparr>"

definition history_item :: "string \<Rightarrow> jsval" where
  "history_item u = JObj [(''timestamp'', JNum (Fin 1)), (''channel'', JObj [(''id'', JStr u)])]"

definition duplicated_store :: history_store where
  "duplicated_store =
     \<lparr> watchHistory = JArr [history_item ''http://b/x.m3u8'', history_item ''http://b/x.m3u8''],
       favorites = JUndefined, set_fails = False \<rparr>"

definition revisit_store :: history_store where
  "revisit_store =
     \<lparr> watchHistory = JArr [history_item ''http://b/x.m3u8'', history_item ''http://a/y.m3u8''],
       favorites = JUndefined, set_fails = False \<rparr>"

definition full_store :: history_store where
  "full_store =
     \<lparr> watchHistory = JArr [history_item ''http://b/x.m3u8'', history_item ''http://a/y.m3u8''],
       favorites = JUndefined, set_fails = True \<rparr>"

section \<open>Properties\<close>

subsection \<open>Manual retry\<close>

lemma retryStream_count_iter:
  "retryCount ((retryStream ^^ n) p) = min (retryCount p + n) (max (retryCount p) MAX_RETRIES)"
  by (induction n) (auto simp: retryStream_def)



lemma handleInvalidStream_count [simp]:
  "retryCount (handleInvalidStream h r p) = retryCount p"
  by (simp add: handleInvalidStream_def Let_def split: option.splits)

lemma restart_load_count [simp]: "retryCount (fst (restart_load ctx p)) = retryCount p"
  by (simp add: restart_load_def)

lemma on_hls_error_count [simp]: "retryCount (fst (on_hls_error ctx data p)) = retryCount p"
  by (simp add: on_hls_error_def Let_def split: option.splits)








subsection \<open>Loading the persisted record\<close>

lemma typeof_object:
  "typeof v = ''object'' \<longleftrightarrow> v = JNull \<or> (\<exists>xs. v = JArr xs) \<or> (\<exists>kvs. v = JObj kvs)"
  by (cases v) simp_all

lemma get_prop_falsy: "\<not> truthy v \<Longrightarrow> get_prop v k = JUndefined"
  by (cases v) simp_all

text \<open>The check of the code and the wording of the specification agree.\<close>

lemma valid_iff: "isValidPipState r \<longleftrightarrow> \<not> fails_validation r"
proof (cases "truthy r")
  case False
  then show ?thesis
    by (simp add: isValidPipState_def fails_validation_def get_prop_falsy)
next
  case True
  then show ?thesis
    by (cases "get_prop r ''channel''"; cases "get_prop r ''streamUrl''")
       (auto simp: isValidPipState_def fails_validation_def Let_def)
qed

lemma js_le_not_gt: "js_le a b \<Longrightarrow> \<not> js_gt a b"
  by (cases a; cases b) simp_all

lemma getItem_removeItem: "getItem k (removeItem k st) = None"
  by (simp add: getItem_def removeItem_def)

lemma loadPipState_Json:
  "getItem PIP_STATE_KEY st = Some (Json r) \<Longrightarrow>
   loadPipState now st =
     (if isValidPipState r
         \<and> \<not> js_gt (js_sub (Fin (of_int now)) (num_of (get_prop r ''timestamp'')))
                   (Fin 1800000)
      then (Some r, st) else (None, removeItem PIP_STATE_KEY st))"
  by (simp add: loadPipState_def clearPipState_def PIP_EXPIRY_TIME_def)

lemma loadPipState_Some:
  "loadPipState now st = (Some x, st') \<Longrightarrow>
     st' = st \<and> getItem PIP_STATE_KEY st = Some (Json x) \<and> isValidPipState x"
  by (auto simp: loadPipState_def split: option.splits stored.splits if_splits)

text \<open>
  C1. A stored record whose timestamp lies more than 1,800,000 ms before the current time
  makes \<open>loadPipState\<close> return \<open>null\<close> and leaves the storage without the item; a
  structurally valid record whose age is at most 1,800,000 ms is returned as stored, and
  the storage is unchanged.
\<close>

theorem loadPipState_expiry:
  assumes "getItem PIP_STATE_KEY st = Some (Json r)"
    and "get_prop r ''timestamp'' = JNum ts"
  shows "(js_gt (js_sub (Fin (of_int now)) ts) (Fin 1800000) \<longrightarrow>
            loadPipState now st = (None, removeItem PIP_STATE_KEY st)
            \<and> getItem PIP_STATE_KEY (snd (loadPipState now st)) = None)
       \<and> (isValidPipState r \<and> js_le (js_sub (Fin (of_int now)) ts) (Fin 1800000) \<longrightarrow>
            loadPipState now st = (Some r, st))"
  using assms by (auto simp: loadPipState_Json getItem_removeItem dest: js_le_not_gt)

theorem loadPipState_expiry_witness:
  "getItem PIP_STATE_KEY (sample_storage (sample_record 0)) = Some (Json (sample_record 0))
   \<and> get_prop (sample_record 0) ''timestamp'' = JNum (Fin 0)
   \<and> js_gt (js_sub (Fin (of_int 1860000)) (Fin 0)) (Fin 1800000)
   \<and> loadPipState 1860000 (sample_storage (sample_record 0))
     = (None, removeItem PIP_STATE_KEY (sample_storage (sample_record 0)))
   \<and> isValidPipState (sample_record 0)
   \<and> js_le (js_sub (Fin (of_int 1800000)) (Fin 0)) (Fin 1800000)
   \<and> loadPipState 1800000 (sample_storage (sample_record 0))
     = (Some (sample_record 0), sample_storage (sample_record 0))"
proof -
  have g: "getItem PIP_STATE_KEY (sample_storage (sample_record 0))
             = Some (Json (sample_record 0))"
    by (simp add: getItem_def sample_storage_def)
  have t: "get_prop (sample_record 0) ''timestamp'' = JNum (Fin 0)"
    by (simp add: sample_record_def)
  have v: "isValidPipState (sample_record 0)"
    by (simp add: sample_record_def isValidPipState_def)
  have old: "js_gt (js_sub (Fin (of_int 1860000)) (Fin 0)) (Fin 1800000)"
    by simp
  have young: "js_le (js_sub (Fin (of_int 1800000)) (Fin 0)) (Fin 1800000)"
    by simp
  from loadPipState_expiry [OF g t, of 1860000] old
  have a: "loadPipState 1860000 (sample_storage (sample_record 0))
     = (None, removeItem PIP_STATE_KEY (sample_storage (sample_record 0)))"
    by blast
  from loadPipState_expiry [OF g t, of 1800000] v young
  have b: "loadPipState 1800000 (sample_storage (sample_record 0))
     = (Some (sample_record 0), sample_storage (sample_record 0))"
    by blast
  from g t old a v young b show ?thesis by blast
qed

text \<open>
  C2. A stored record that fails the structural validation (no channel object, a channel
  name that is not a string, a stream URL that is not a string longer than 5, or a
  timestamp that is not a number) makes \<open>loadPipState\<close> return \<open>null\<close> and leaves the
  storage without the item; whatever \<open>loadPipState\<close> returns passes the validation.
\<close>

theorem loadPipState_rejects_invalid:
  "(getItem PIP_STATE_KEY st = Some (Json r) \<and> fails_validation r \<longrightarrow>
      loadPipState now st = (None, removeItem PIP_STATE_KEY st)
      \<and> getItem PIP_STATE_KEY (snd (loadPipState now st)) = None)
   \<and> (fst (loadPipState now st) = Some x \<longrightarrow> \<not> fails_validation x)"
proof (intro conjI impI)
  assume a: "getItem PIP_STATE_KEY st = Some (Json r) \<and> fails_validation r"
  then show l: "loadPipState now st = (None, removeItem PIP_STATE_KEY st)"
    by (simp add: loadPipState_Json valid_iff)
  show "getItem PIP_STATE_KEY (snd (loadPipState now st)) = None"
    by (simp add: l getItem_removeItem)
next
  assume "fst (loadPipState now st) = Some x"
  then have "loadPipState now st = (Some x, snd (loadPipState now st))"
    by (metis prod.collapse)
  from loadPipState_Some [OF this] show "\<not> fails_validation x"
    by (simp add: valid_iff)
qed

theorem loadPipState_rejects_invalid_witness:
  "getItem PIP_STATE_KEY (sample_storage short_url_record) = Some (Json short_url_record)
   \<and> fails_validation short_url_record
   \<and> loadPipState 5 (sample_storage short_url_record)
       = (None, removeItem PIP_STATE_KEY (sample_storage short_url_record))
   \<and> fst (loadPipState 5 (sample_storage (sample_record 0))) = Some (sample_record 0)
   \<and> \<not> fails_validation (sample_record 0)"
proof -
  have g: "getItem PIP_STATE_KEY (sample_storage short_url_record)
             = Some (Json short_url_record)"
    by (simp add: getItem_def sample_storage_def)
  have f: "fails_validation short_url_record"
    by (simp add: fails_validation_def short_url_record_def)
  have s: "fst (loadPipState 5 (sample_storage (sample_record 0))) = Some (sample_record 0)"
    by (simp add: loadPipState_def getItem_def sample_storage_def sample_record_def
        isValidPipState_def PIP_EXPIRY_TIME_def)
  from loadPipState_rejects_invalid [of "sample_storage short_url_record" short_url_record 5] g f
  have a: "loadPipState 5 (sample_storage short_url_record)
       = (None, removeItem PIP_STATE_KEY (sample_storage short_url_record))"
    by blast
  from loadPipState_rejects_invalid
         [where st = "sample_storage (sample_record 0)" and now = 5
            and x = "sample_record 0"] s
  have b: "\<not> fails_validation (sample_record 0)"
    by blast
  from g f a s b show ?thesis by blast
qed

subsection \<open>Saving the record\<close>

lemma sanitize_loop_map_of:
  "map_of (sanitize_loop ks ob) k =
     (if k \<in> set ks \<and> (\<exists>v. map_of ob k = Some v \<and> dropped_option v) then None
      else map_of ob k)"
proof (induction ks arbitrary: ob)
  case Nil
  then show ?case by simp
next
  case (Cons a ks)
  have u: "\<not> dropped_option JUndefined"
    by (simp add: dropped_option_def)
  show ?case
    by (auto simp: Cons.IH delete_conv' u split: option.splits)
qed

lemma sanitize_loop_distinct:
  "distinct (map fst ob) \<Longrightarrow> distinct (map fst (sanitize_loop ks ob))"
  by (induction ks arbitrary: ob) (simp_all add: distinct_delete)

lemma sanitizedOptions_map_of:
  "map_of (sanitizedOptions opts) k =
     (case map_of (own_entries opts) k of
        None \<Rightarrow> None
      | Some v \<Rightarrow> if dropped_option v then None else Some v)"
  by (auto simp: sanitizedOptions_def Let_def sanitize_loop_map_of map_of_eq_None_iff
      split: option.splits dest: map_of_SomeD intro: rev_image_eqI)

lemma sanitizedOptions_distinct: "distinct (map fst (sanitizedOptions opts))"
  by (simp add: sanitizedOptions_def Let_def own_entries_def sanitize_loop_distinct
      distinct_clearjunk)

lemma sanitizedOptions_kept:
  assumes "(k, v) \<in> set (sanitizedOptions opts)"
  shows "\<not> dropped_option v"
proof -
  from assms sanitizedOptions_distinct have "map_of (sanitizedOptions opts) k = Some v"
    by simp
  then show ?thesis
    by (simp add: sanitizedOptions_map_of split: option.splits if_splits)
qed

lemma to_json_props_set:
  "to_json_props kvs = Some ps \<Longrightarrow> (k, w) \<in> set ps \<Longrightarrow>
     \<exists>v. (k, v) \<in> set kvs \<and> to_json v = Serial w"
proof (induction kvs arbitrary: ps)
  case Nil
  then show ?case by simp
next
  case (Cons kv kvs)
  then show ?case
    by (cases kv) (fastforce split: json_result.splits)
qed

lemma to_json_kept:
  "to_json v = Serial w \<Longrightarrow> \<not> dropped_option v \<Longrightarrow> is_primitive w \<or> is_array w"
  by (cases v) (auto simp: dropped_option_def split: option.splits)

lemma written_options:
  assumes "to_json_props (sanitizedOptions opts) = Some ps" and "(k, w) \<in> set ps"
  shows "is_primitive w \<or> is_array w"
proof -
  from to_json_props_set [OF assms] obtain v
    where v: "(k, v) \<in> set (sanitizedOptions opts)" and j: "to_json v = Serial w"
    by blast
  from to_json_kept [OF j sanitizedOptions_kept [OF v]] show ?thesis .
qed

lemma to_json_props_map_of:
  "to_json_props kvs = Some ps \<Longrightarrow> distinct (map fst kvs) \<Longrightarrow>
     map_of ps k = (case map_of kvs k of
                      None \<Rightarrow> None
                    | Some v \<Rightarrow> (case to_json v of Serial w \<Rightarrow> Some w | _ \<Rightarrow> None))"
proof (induction kvs arbitrary: ps)
  case Nil
  then show ?case by simp
next
  case (Cons kv kvs)
  obtain a b where kv: "kv = (a, b)"
    by (cases kv)
  from Cons.prems(2) kv have notin: "a \<notin> fst ` set kvs" and d: "distinct (map fst kvs)"
    by simp_all
  from notin have none: "map_of kvs a = None"
    by (simp add: map_of_eq_None_iff)
  show ?case
  proof (cases "to_json b")
    case Throws
    with Cons.prems(1) kv show ?thesis by simp
  next
    case Omitted
    with Cons.prems(1) kv have "to_json_props kvs = Some ps" by simp
    from Cons.IH [OF this d] Omitted kv none show ?thesis
      by (simp split: option.splits)
  next
    case (Serial w)
    with Cons.prems(1) kv obtain qs
      where q: "to_json_props kvs = Some qs" and ps: "ps = (a, w) # qs"
      by auto
    from Cons.IH [OF q d] Serial kv ps show ?thesis
      by simp
  qed
qed

lemma to_json_props_no_throw:
  "to_json_props kvs = Some ps \<Longrightarrow> kv \<in> set kvs \<Longrightarrow> to_json (snd kv) \<noteq> Throws"
  by (induction kvs arbitrary: ps) (auto split: json_result.splits)

lemma to_json_pip_record:
  assumes "to_json (pip_record channel streamUrl opts now) = Serial r"
  shows "\<exists>ps. to_json_props (sanitizedOptions opts) = Some ps \<and> get_prop r ''options'' = JObj ps"
proof -
  let ?kvs = "[(''channel'', cleanedChannel channel), (''streamUrl'', streamUrl),
      (''options'', JObj (sanitizedOptions opts)),
      (''timestamp'', JNum (Fin (of_int now))), (''version'', JStr ''1.0'')]"
  from assms obtain qs where q: "to_json_props ?kvs = Some qs" and r: "r = JObj qs"
    by (auto simp only: pip_record_def to_json.simps split: option.splits)
  have d: "distinct (map fst ?kvs)"
    by simp
  have m: "map_of ?kvs ''options'' = Some (JObj (sanitizedOptions opts))"
    by simp
  from to_json_props_map_of [OF q d, of "''options''"] m
  have "map_of qs ''options'' =
          (case to_json (JObj (sanitizedOptions opts)) of Serial w \<Rightarrow> Some w | _ \<Rightarrow> None)"
    by (simp only: option.case)
  moreover have "to_json (JObj (sanitizedOptions opts)) \<noteq> Throws"
    using to_json_props_no_throw [OF q, of "(''options'', JObj (sanitizedOptions opts))"]
    by simp
  ultimately show ?thesis
    using r by (auto split: option.splits)
qed

lemma to_json_pip_record_not_Omitted:
  "to_json (pip_record channel streamUrl opts now) \<noteq> Omitted"
  by (simp add: pip_record_def split: option.splits)

lemma savePipState_cases:
  "savePipState channel streamUrl options now st =
     (if \<not> truthy channel \<or> \<not> truthy streamUrl then (False, st)
      else
        (case to_json (pip_record channel streamUrl
                        (if options = JUndefined then JObj [] else options) now) of
           Serial v \<Rightarrow>
             (if setItem_fails st then (False, removeItem PIP_STATE_KEY st)
              else (True, st\<lparr> items := (items st)(PIP_STATE_KEY \<mapsto> Json v) \<rparr>))
         | _ \<Rightarrow> (False, removeItem PIP_STATE_KEY st)))"
  using to_json_pip_record_not_Omitted
  by (auto simp: savePipState_def setItem_def split: json_result.splits)


lemma sanitized_mixed:
  "sanitizedOptions mixed_options = [(''volume'', JNum (Fin 1)), (''wasMuted'', JBool False)]"
  by (simp add: sanitizedOptions_def mixed_options_def own_entries_def dropped_option_def
      AList.delete_eq)

lemma empty_storage_writable: "\<not> setItem_fails empty_storage"
  by (simp add: empty_storage_def)

lemma save_mixed:
  "fst (savePipState sample_channel sample_url mixed_options 0 empty_storage)"
proof -
  have "mixed_options \<noteq> JUndefined"
    by (simp add: mixed_options_def)
  then show ?thesis
    by (simp add: savePipState_cases pip_record_def sanitized_mixed cleanedChannel_def
        sample_channel_def sample_url_def js_or_def empty_storage_writable)
qed

lemma save_bigint:
  "savePipState sample_channel sample_url bigint_options 0 (sample_storage (sample_record 0))
    = (False, removeItem PIP_STATE_KEY (sample_storage (sample_record 0)))"
  by (simp add: savePipState_cases pip_record_def cleanedChannel_def
      sample_channel_def sample_url_def bigint_options_def js_or_def
      sanitizedOptions_def own_entries_def dropped_option_def)

lemma save_nested:
  "savePipState sample_channel sample_url nested_options 0 empty_storage
    = (True, empty_storage\<lparr> items := (items empty_storage)(PIP_STATE_KEY \<mapsto>
         Json (JObj [(''channel'', JObj [(''id'', JStr ''http://tv.example/live.m3u8''),
                        (''name'', JStr ''News''), (''logo'', JNull), (''group'', JNull),
                        (''channelId'', JStr ''http://tv.example/live.m3u8'')]),
                     (''streamUrl'', JStr ''http://tv.example/live.m3u8''),
                     (''options'', JObj [(''tracks'', JArr [JObj [(''lang'', JStr ''en'')]])]),
                     (''timestamp'', JNum (Fin 0)),
                     (''version'', JStr ''1.0'')])) \<rparr>)"
  by (simp add: savePipState_cases pip_record_def cleanedChannel_def
      sample_channel_def sample_url_def nested_options_def js_or_def
      sanitizedOptions_def own_entries_def dropped_option_def empty_storage_writable)

text \<open>
  C3, as amended. For every channel, stream URL and options value passed to
  \<open>savePipState\<close>: the sanitised options are the given ones without every top-level
  option whose value is a function or an object that is neither \<open>null\<close> nor an array
  (primitives, \<open>null\<close> and arrays are kept as given); when the call succeeds, the item
  written is the JSON form of the record, and each of its option values is a JSON
  primitive or an array; when serialising or writing fails, the item is removed from the
  storage, so that no earlier or partial record stays; without a channel or a stream URL
  the storage is not touched.
\<close>

theorem savePipState_sanitizes:
  "(\<forall>k. map_of (sanitizedOptions opts) k =
          (case map_of (own_entries opts) k of
             None \<Rightarrow> None
           | Some v \<Rightarrow> if dropped_option v then None else Some v))
   \<and> (fst (savePipState channel streamUrl opts now st) \<longrightarrow>
        (\<exists>r ps. snd (savePipState channel streamUrl opts now st)
                   = st\<lparr> items := (items st)(PIP_STATE_KEY \<mapsto> Json r) \<rparr>
               \<and> to_json (pip_record channel streamUrl
                            (if opts = JUndefined then JObj [] else opts) now) = Serial r
               \<and> get_prop r ''options'' = JObj ps
               \<and> (\<forall>kw \<in> set ps. is_primitive (snd kw) \<or> is_array (snd kw))))
   \<and> (\<not> fst (savePipState channel streamUrl opts now st)
        \<and> truthy channel \<and> truthy streamUrl \<longrightarrow>
        snd (savePipState channel streamUrl opts now st) = removeItem PIP_STATE_KEY st
        \<and> getItem PIP_STATE_KEY (snd (savePipState channel streamUrl opts now st)) = None)
   \<and> (\<not> truthy channel \<or> \<not> truthy streamUrl \<longrightarrow>
        savePipState channel streamUrl opts now st = (False, st))"
proof (intro conjI allI impI)
  fix k
  show "map_of (sanitizedOptions opts) k =
          (case map_of (own_entries opts) k of
             None \<Rightarrow> None
           | Some v \<Rightarrow> if dropped_option v then None else Some v)"
    by (rule sanitizedOptions_map_of)
next
  let ?o = "if opts = JUndefined then JObj [] else opts"
  assume ok: "fst (savePipState channel streamUrl opts now st)"
  then obtain r where j: "to_json (pip_record channel streamUrl ?o now) = Serial r"
    and s: "snd (savePipState channel streamUrl opts now st)
              = st\<lparr> items := (items st)(PIP_STATE_KEY \<mapsto> Json r) \<rparr>"
    by (auto simp: savePipState_cases split: if_splits json_result.splits)
  from to_json_pip_record [OF j] obtain ps
    where p: "to_json_props (sanitizedOptions ?o) = Some ps"
      and g: "get_prop r ''options'' = JObj ps"
    by blast
  have "\<forall>kw \<in> set ps. is_primitive (snd kw) \<or> is_array (snd kw)"
  proof
    fix kw
    assume "kw \<in> set ps"
    then have "(fst kw, snd kw) \<in> set ps"
      by simp
    from written_options [OF p this] show "is_primitive (snd kw) \<or> is_array (snd kw)" .
  qed
  with s j g
  show "\<exists>r ps. snd (savePipState channel streamUrl opts now st)
                   = st\<lparr> items := (items st)(PIP_STATE_KEY \<mapsto> Json r) \<rparr>
               \<and> to_json (pip_record channel streamUrl ?o now) = Serial r
               \<and> get_prop r ''options'' = JObj ps
               \<and> (\<forall>kw \<in> set ps. is_primitive (snd kw) \<or> is_array (snd kw))"
    by blast
next
  assume f: "\<not> fst (savePipState channel streamUrl opts now st)
        \<and> truthy channel \<and> truthy streamUrl"
  then show r: "snd (savePipState channel streamUrl opts now st) = removeItem PIP_STATE_KEY st"
    by (auto simp: savePipState_cases split: if_splits json_result.splits)
  show "getItem PIP_STATE_KEY (snd (savePipState channel streamUrl opts now st)) = None"
    by (simp add: r getItem_def removeItem_def)
next
  assume "\<not> truthy channel \<or> \<not> truthy streamUrl"
  then show "savePipState channel streamUrl opts now st = (False, st)"
    by (auto simp: savePipState_def)
qed

theorem savePipState_sanitizes_witness:
  "fst (savePipState sample_channel sample_url mixed_options 0 empty_storage)
   \<and> (\<exists>r ps. snd (savePipState sample_channel sample_url mixed_options 0 empty_storage)
                   = empty_storage\<lparr> items := (items empty_storage)(PIP_STATE_KEY \<mapsto> Json r) \<rparr>
               \<and> get_prop r ''options'' = JObj ps
               \<and> (\<forall>kw \<in> set ps. is_primitive (snd kw) \<or> is_array (snd kw)))
   \<and> \<not> fst (savePipState sample_channel sample_url bigint_options 0
               (sample_storage (sample_record 0)))
   \<and> truthy sample_channel \<and> truthy sample_url
   \<and> getItem PIP_STATE_KEY (snd (savePipState sample_channel sample_url bigint_options 0
               (sample_storage (sample_record 0)))) = None
   \<and> \<not> truthy JNull
   \<and> savePipState JNull sample_url mixed_options 0 (sample_storage (sample_record 0))
       = (False, sample_storage (sample_record 0))"
proof -
  note ok = savePipState_sanitizes
    [where opts = mixed_options and channel = sample_channel and streamUrl = sample_url
       and now = 0 and st = empty_storage]
  note bad = savePipState_sanitizes
    [where opts = bigint_options and channel = sample_channel and streamUrl = sample_url
       and now = 0 and st = "sample_storage (sample_record 0)"]
  note none = savePipState_sanitizes
    [where opts = mixed_options and channel = JNull and streamUrl = sample_url
       and now = 0 and st = "sample_storage (sample_record 0)"]
  have t: "truthy sample_channel \<and> truthy sample_url"
    by (simp add: sample_channel_def sample_url_def)
  have f: "\<not> fst (savePipState sample_channel sample_url bigint_options 0
               (sample_storage (sample_record 0)))"
    by (simp add: save_bigint)
  have n: "\<not> truthy JNull"
    by simp
  from ok save_mixed
  have a: "\<exists>r ps. snd (savePipState sample_channel sample_url mixed_options 0 empty_storage)
                   = empty_storage\<lparr> items := (items empty_storage)(PIP_STATE_KEY \<mapsto> Json r) \<rparr>
               \<and> get_prop r ''options'' = JObj ps
               \<and> (\<forall>kw \<in> set ps. is_primitive (snd kw) \<or> is_array (snd kw))"
    by blast
  from bad f t
  have b: "getItem PIP_STATE_KEY (snd (savePipState sample_channel sample_url bigint_options 0
               (sample_storage (sample_record 0)))) = None"
    by blast
  from none n
  have c: "savePipState JNull sample_url mixed_options 0 (sample_storage (sample_record 0))
       = (False, sample_storage (sample_record 0))"
    by blast
  from save_mixed a f t b n c show ?thesis
    by blast
qed

text \<open>
  The claim as stated fails: an array-valued option is kept, and with it the object it
  holds, so the persisted options are not only primitive values.
\<close>

theorem savePipState_primitives_counterexample:
  "fst (savePipState sample_channel sample_url nested_options 0 empty_storage)
   \<and> get_prop (get_prop (stored_record
        (snd (savePipState sample_channel sample_url nested_options 0 empty_storage)))
          ''options'') ''tracks'' = JArr [JObj [(''lang'', JStr ''en'')]]
   \<and> \<not> primitive_options (stored_record
        (snd (savePipState sample_channel sample_url nested_options 0 empty_storage)))"
  by (simp add: save_nested stored_record_def getItem_def primitive_options_def
      own_entries_def)

subsection \<open>Entering Picture-in-Picture without a user gesture\<close>

lemma own_entries_spread_with:
  "map_of (own_entries (spread_with v k x)) k = Some x"
  by (simp add: own_entries_def spread_with_def map_of_clearjunk update_conv')

lemma sanitized_pending:
  "map_of (sanitizedOptions (spread_with v k (JBool b))) k = Some (JBool b)"
  by (simp add: sanitizedOptions_map_of own_entries_spread_with dropped_option_def)

lemma spread_with_defined: "spread_with v k x \<noteq> JUndefined"
  by (simp add: spread_with_def)

lemma saved_pending_flag:
  assumes "fst (savePipState channel streamUrl (spread_with v k (JBool b)) now st)"
  shows "get_prop (get_prop (stored_record
            (snd (savePipState channel streamUrl (spread_with v k (JBool b)) now st)))
              ''options'') k = JBool b"
proof -
  let ?o = "spread_with v k (JBool b)"
  from assms
  obtain r where s: "snd (savePipState channel streamUrl ?o now st)
                   = st\<lparr> items := (items st)(PIP_STATE_KEY \<mapsto> Json r) \<rparr>"
    and j: "to_json (pip_record channel streamUrl ?o now) = Serial r"
    by (auto simp: savePipState_cases spread_with_defined split: if_splits json_result.splits)
  from to_json_pip_record [OF j] obtain qs
    where p: "to_json_props (sanitizedOptions ?o) = Some qs"
      and g: "get_prop r ''options'' = JObj qs"
    by blast
  from to_json_props_map_of [OF p sanitizedOptions_distinct, of k]
  have "map_of qs k = Some (JBool b)"
    by (simp add: sanitized_pending)
  with g s show ?thesis
    by (simp add: stored_record_def getItem_def)
qed


lemma enterPiP_pending:
  assumes "pipSupported env" and "truthy channel" and "truthy streamUrl"
    and "options \<noteq> JNull" and "\<not> truthy (get_prop options ''fromUserGesture'')"
  shows "enterPiP env now channel streamUrl options m =
           (Returned,
            m\<lparr> session := snd (savePipState channel streamUrl
                   (spread_with (if options = JUndefined then JObj [] else options)
                      ''pendingPiP'' (JBool True)) now (session m)),
               pipChannel := channel, pipStatus := ''pending'',
               pipError := Some ''Click to activate PiP'' \<rparr>)"
proof -
  let ?o = "if options = JUndefined then JObj [] else options"
  have n: "?o \<noteq> JNull"
    using assms(4) by simp
  have g: "\<not> truthy (get_prop ?o ''fromUserGesture'')"
    using assms(5) by simp
  show ?thesis
    using assms(1-3) n g by (simp add: enterPiP_def Let_def)
qed

lemma enterPiP_unsupported:
  "\<not> pipSupported env \<Longrightarrow>
     enterPiP env now channel streamUrl options m =
       (Returned, m\<lparr> pipError := Some ''Picture-in-Picture not supported in this browser'' \<rparr>)"
  by (simp add: enterPiP_def Let_def)

lemma enterPiP_missing:
  "pipSupported env \<Longrightarrow> \<not> truthy channel \<or> \<not> truthy streamUrl \<Longrightarrow>
     enterPiP env now channel streamUrl options m = (Returned, m)"
  by (auto simp: enterPiP_def Let_def)

lemma enterPiP_null_options:
  "pipSupported env \<Longrightarrow> truthy channel \<Longrightarrow> truthy streamUrl \<Longrightarrow>
     enterPiP env now channel streamUrl JNull m =
       (Rejected,
        m\<lparr> session := snd (savePipState channel streamUrl
               (spread_with JNull ''pendingPiP'' (JBool True)) now (session m)),
           pipChannel := channel \<rparr>)"
  by (simp add: enterPiP_def Let_def)

text \<open>
  C8, as amended. For every Picture-in-Picture request without the user-gesture flag, made
  where Picture-in-Picture is supported, with a channel and a stream URL given and options
  that are not \<open>null\<close>: \<open>enterPiP\<close> returns with the status \<open>pending\<close> and the
  prompt "Click to activate PiP", has called \<open>savePipState\<close> with \<open>pendingPiP\<close> set
  (so that, when that write succeeds, the stored record has \<open>pendingPiP = true\<close>), and
  has made no call on the browser or the engine: no element, no engine instance, no
  Picture-in-Picture request. Where Picture-in-Picture is not supported, every request
  only sets the error text "Picture-in-Picture not supported in this browser". Where it
  is supported and the channel or the stream URL is missing, every request returns
  without any change. With \<open>null\<close> options the request saves the record, sets the
  channel and is then rejected.
\<close>

theorem enterPiP_without_gesture:
  "(pipSupported env \<and> truthy channel \<and> truthy streamUrl
      \<and> options \<noteq> JNull \<and> \<not> truthy (get_prop options ''fromUserGesture'') \<longrightarrow>
      enterPiP env now channel streamUrl options m =
           (Returned,
            m\<lparr> session := snd (savePipState channel streamUrl
                   (spread_with (if options = JUndefined then JObj [] else options)
                      ''pendingPiP'' (JBool True)) now (session m)),
               pipChannel := channel, pipStatus := ''pending'',
               pipError := Some ''Click to activate PiP'' \<rparr>)
       \<and> pipStatus (snd (enterPiP env now channel streamUrl options m)) = ''pending''
       \<and> effects (snd (enterPiP env now channel streamUrl options m)) = effects m
       \<and> pipVideoRef (snd (enterPiP env now channel streamUrl options m)) = pipVideoRef m
       \<and> pipHlsRef (snd (enterPiP env now channel streamUrl options m)) = pipHlsRef m
       \<and> (fst (savePipState channel streamUrl
                 (spread_with (if options = JUndefined then JObj [] else options)
                    ''pendingPiP'' (JBool True)) now (session m)) \<longrightarrow>
            get_prop (get_prop (stored_record
                (session (snd (enterPiP env now channel streamUrl options m))))
              ''options'') ''pendingPiP'' = JBool True))
   \<and> (\<not> pipSupported env \<longrightarrow>
        enterPiP env now channel streamUrl options m =
          (Returned,
           m\<lparr> pipError := Some ''Picture-in-Picture not supported in this browser'' \<rparr>))
   \<and> (pipSupported env \<and> (\<not> truthy channel \<or> \<not> truthy streamUrl) \<longrightarrow>
        enterPiP env now channel streamUrl options m = (Returned, m))
   \<and> (pipSupported env \<and> truthy channel \<and> truthy streamUrl \<and> options = JNull \<longrightarrow>
        enterPiP env now channel streamUrl options m =
          (Rejected,
           m\<lparr> session := snd (savePipState channel streamUrl
                  (spread_with JNull ''pendingPiP'' (JBool True)) now (session m)),
              pipChannel := channel \<rparr>))"
proof (intro conjI impI)
  assume a: "pipSupported env \<and> truthy channel \<and> truthy streamUrl
      \<and> options \<noteq> JNull \<and> \<not> truthy (get_prop options ''fromUserGesture'')"
  then have e: "enterPiP env now channel streamUrl options m =
           (Returned,
            m\<lparr> session := snd (savePipState channel streamUrl
                   (spread_with (if options = JUndefined then JObj [] else options)
                      ''pendingPiP'' (JBool True)) now (session m)),
               pipChannel := channel, pipStatus := ''pending'',
               pipError := Some ''Click to activate PiP'' \<rparr>)"
    by (simp add: enterPiP_pending)
  show "enterPiP env now channel streamUrl options m =
           (Returned,
            m\<lparr> session := snd (savePipState channel streamUrl
                   (spread_with (if options = JUndefined then JObj [] else options)
                      ''pendingPiP'' (JBool True)) now (session m)),
               pipChannel := channel, pipStatus := ''pending'',
               pipError := Some ''Click to activate PiP'' \<rparr>)"
    by (rule e)
  show "pipStatus (snd (enterPiP env now channel streamUrl options m)) = ''pending''"
    by (simp add: e)
  show "effects (snd (enterPiP env now channel streamUrl options m)) = effects m"
    by (simp add: e)
  show "pipVideoRef (snd (enterPiP env now channel streamUrl options m)) = pipVideoRef m"
    by (simp add: e)
  show "pipHlsRef (snd (enterPiP env now channel streamUrl options m)) = pipHlsRef m"
    by (simp add: e)
  show "get_prop (get_prop (stored_record
                (session (snd (enterPiP env now channel streamUrl options m))))
              ''options'') ''pendingPiP'' = JBool True"
    if "fst (savePipState channel streamUrl
                 (spread_with (if options = JUndefined then JObj [] else options)
                    ''pendingPiP'' (JBool True)) now (session m))"
    using that by (simp add: e saved_pending_flag)
next
  assume "\<not> pipSupported env"
  then show "enterPiP env now channel streamUrl options m =
          (Returned,
           m\<lparr> pipError := Some ''Picture-in-Picture not supported in this browser'' \<rparr>)"
    by (rule enterPiP_unsupported)
next
  assume "pipSupported env \<and> (\<not> truthy channel \<or> \<not> truthy streamUrl)"
  then show "enterPiP env now channel streamUrl options m = (Returned, m)"
    by (simp add: enterPiP_missing)
next
  assume "pipSupported env \<and> truthy channel \<and> truthy streamUrl \<and> options = JNull"
  then show "enterPiP env now channel streamUrl options m =
          (Rejected,
           m\<lparr> session := snd (savePipState channel streamUrl
                  (spread_with JNull ''pendingPiP'' (JBool True)) now (session m)),
              pipChannel := channel \<rparr>)"
    by (simp add: enterPiP_null_options)
qed

lemma save_pending:
  "fst (savePipState sample_channel sample_url
          (spread_with player_options ''pendingPiP'' (JBool True)) 0 empty_storage)"
  by (simp add: savePipState_cases pip_record_def cleanedChannel_def
      sample_channel_def sample_url_def js_or_def empty_storage_writable spread_with_def
      sanitizedOptions_def own_entries_def dropped_option_def player_options_def)

theorem enterPiP_without_gesture_witness:
  "pipSupported modern_browser \<and> truthy sample_channel \<and> truthy sample_url
   \<and> player_options \<noteq> JNull \<and> \<not> truthy (get_prop player_options ''fromUserGesture'')
   \<and> fst (savePipState sample_channel sample_url
            (spread_with player_options ''pendingPiP'' (JBool True)) 0
            (session initial_pip_manager))
   \<and> pipStatus (snd (enterPiP modern_browser 0 sample_channel sample_url player_options
                        initial_pip_manager)) = ''pending''
   \<and> effects (snd (enterPiP modern_browser 0 sample_channel sample_url player_options
                        initial_pip_manager)) = []
   \<and> get_prop (get_prop (stored_record
         (session (snd (enterPiP modern_browser 0 sample_channel sample_url player_options
                        initial_pip_manager)))) ''options'') ''pendingPiP'' = JBool True
   \<and> \<not> pipSupported old_browser
   \<and> enterPiP old_browser 0 sample_channel sample_url player_options initial_pip_manager
       = (Returned, initial_pip_manager
            \<lparr> pipError := Some ''Picture-in-Picture not supported in this browser'' \<rparr>)
   \<and> \<not> truthy JNull
   \<and> enterPiP modern_browser 0 JNull sample_url player_options initial_pip_manager
       = (Returned, initial_pip_manager)
   \<and> enterPiP modern_browser 0 sample_channel sample_url JNull initial_pip_manager
       = (Rejected, initial_pip_manager
            \<lparr> session := snd (savePipState sample_channel sample_url
                   (spread_with JNull ''pendingPiP'' (JBool True)) 0
                   (session initial_pip_manager)),
               pipChannel := sample_channel \<rparr>)"
proof -
  have h1: "pipSupported modern_browser"
    by (simp add: modern_browser_def)
  have h2: "truthy sample_channel"
    by (simp add: sample_channel_def)
  have h3: "truthy sample_url"
    by (simp add: sample_url_def)
  have h4: "player_options \<noteq> JNull"
    by (simp add: player_options_def)
  have h5: "\<not> truthy (get_prop player_options ''fromUserGesture'')"
    by (simp add: player_options_def)
  have u: "player_options \<noteq> JUndefined"
    by (simp add: player_options_def)
  have s: "session initial_pip_manager = empty_storage"
    by (simp add: initial_pip_manager_def)
  have e: "effects initial_pip_manager = []"
    by (simp add: initial_pip_manager_def)
  have w: "fst (savePipState sample_channel sample_url
            (spread_with player_options ''pendingPiP'' (JBool True)) 0
            (session initial_pip_manager))"
    by (simp add: s save_pending)
  have o: "\<not> pipSupported old_browser"
    by (simp add: old_browser_def)
  have n: "\<not> truthy JNull"
    by simp
  note t = enterPiP_without_gesture
    [where env = modern_browser and now = 0 and channel = sample_channel
       and streamUrl = sample_url and options = player_options and m = initial_pip_manager,
     unfolded if_not_P [OF u]]
  from t h1 h2 h3 h4 h5
  have a: "pipStatus (snd (enterPiP modern_browser 0 sample_channel sample_url
                        player_options initial_pip_manager)) = ''pending''"
    by blast
  from t h1 h2 h3 h4 h5
  have "effects (snd (enterPiP modern_browser 0 sample_channel sample_url
                        player_options initial_pip_manager)) = effects initial_pip_manager"
    by blast
  then have b: "effects (snd (enterPiP modern_browser 0 sample_channel sample_url
                        player_options initial_pip_manager)) = []"
    by (simp only: e)
  from t h1 h2 h3 h4 h5 w
  have c: "get_prop (get_prop (stored_record
         (session (snd (enterPiP modern_browser 0 sample_channel sample_url player_options
                        initial_pip_manager)))) ''options'') ''pendingPiP'' = JBool True"
    by blast
  from enterPiP_without_gesture
    [where env = old_browser and now = 0 and channel = sample_channel
       and streamUrl = sample_url and options = player_options and m = initial_pip_manager] o
  have d: "enterPiP old_browser 0 sample_channel sample_url player_options initial_pip_manager
       = (Returned, initial_pip_manager
            \<lparr> pipError := Some ''Picture-in-Picture not supported in this browser'' \<rparr>)"
    by blast
  from enterPiP_without_gesture
    [where env = modern_browser and now = 0 and channel = JNull
       and streamUrl = sample_url and options = player_options and m = initial_pip_manager] h1 n
  have f: "enterPiP modern_browser 0 JNull sample_url player_options initial_pip_manager
       = (Returned, initial_pip_manager)"
    by blast
  from enterPiP_without_gesture
    [where env = modern_browser and now = 0 and channel = sample_channel
       and streamUrl = sample_url and options = JNull and m = initial_pip_manager] h1 h2 h3
  have g: "enterPiP modern_browser 0 sample_channel sample_url JNull initial_pip_manager
       = (Rejected, initial_pip_manager
            \<lparr> session := snd (savePipState sample_channel sample_url
                   (spread_with JNull ''pendingPiP'' (JBool True)) 0
                   (session initial_pip_manager)),
               pipChannel := sample_channel \<rparr>)"
    by blast
  from h1 h2 h3 h4 h5 w a b c o d n f g show ?thesis
    by blast
qed

text \<open>
  The claim as stated fails where Picture-in-Picture is not supported: the request only
  sets an error text; the status stays \<open>inactive\<close> and nothing is persisted.
\<close>

theorem enterPiP_pending_counterexample:
  "\<not> truthy (get_prop player_options ''fromUserGesture'')
   \<and> pipStatus (snd (enterPiP old_browser 0 sample_channel sample_url player_options
                        initial_pip_manager)) = ''inactive''
   \<and> session (snd (enterPiP old_browser 0 sample_channel sample_url player_options
                        initial_pip_manager)) = empty_storage
   \<and> getItem PIP_STATE_KEY (session (snd (enterPiP old_browser 0 sample_channel sample_url
                        player_options initial_pip_manager))) = None"
  by (simp add: enterPiP_def old_browser_def initial_pip_manager_def player_options_def
      getItem_def empty_storage_def)

subsection \<open>Resolving a channel reference\<close>

lemma list_all_update:
  "P (k, v) \<Longrightarrow> list_all P al \<Longrightarrow> list_all P (AList.update k v al)"
  by (induction al) auto

lemma cache_ok_lookup:
  "cache_ok pf cache \<Longrightarrow> map_of cache k = Some v \<Longrightarrow> cache_entry_ok pf (k, v)"
  by (auto simp: cache_ok_def list_all_iff dest: map_of_SomeD)

lemma cache_ok_Nil: "cache_ok pf []"
  by (simp add: cache_ok_def)

lemma isDirectStreamUrl_cache_ok:
  "cache_ok pf cache \<Longrightarrow> cache_ok pf (snd (isDirectStreamUrl pf cache url))"
  by (auto simp: isDirectStreamUrl_def cache_ok_def Let_def cache_entry_ok_def
      direct_by_extension_def intro!: list_all_update split: option.splits)

lemma extractChannelId_cache_ok:
  "cache_ok pf cache \<Longrightarrow> cache_ok pf (snd (extractChannelId cache ident))"
  by (auto simp: extractChannelId_def cache_ok_def Let_def cache_entry_ok_def
      intro!: list_all_update split: option.splits)

lemma cached_verdict_truthy:
  assumes "cache_ok pf cache" and "map_of cache url = Some v" and "direct_by_extension pf url"
  shows "truthy v"
  using cache_ok_lookup [OF assms(1,2)] assms(3)
  by (cases v) (simp_all add: cache_entry_ok_def)

lemma isDirectStreamUrl_direct:
  assumes "cache_ok pf cache" and "direct_by_extension pf url" and "url \<noteq> []"
  shows "truthy (fst (isDirectStreamUrl pf cache url))"
proof (cases "map_of cache url")
  case None
  with assms(2,3) show ?thesis
    by (auto simp: isDirectStreamUrl_def direct_by_extension_def Let_def split: option.splits)
next
  case (Some v)
  with cached_verdict_truthy [OF assms(1) Some assms(2)] assms(3) show ?thesis
    by (simp add: isDirectStreamUrl_def)
qed

text \<open>
  C5, as amended. The reference is decoded with \<open>decodeURIComponent\<close> first. For every
  channel reference whose decoded form has a URL path that ends, in lower case, in
  \<open>.m3u8\<close>, \<open>.m3u\<close> or \<open>.ts\<close>, resolution gives the decoded reference as the stream
  URL, with \<open>null\<close> channel data, without calling \<open>setChannel\<close> and without any call
  on the Channel Directory Service; a reference that decoding leaves as it is comes back
  unchanged. (The cache is in a state the two caching functions produce.)
\<close>

theorem direct_url_needs_no_lookup:
  assumes "decodeURIComponent pf ident = Inr ref"
    and "url_pathname pf ref = Some p"
    and "endsWith (toLowerCase p) ''.m3u8'' \<or> endsWith (toLowerCase p) ''.m3u''
         \<or> endsWith (toLowerCase p) ''.ts''"
    and "cache_ok pf cache"
  shows "\<exists>cache'. resolveAndLoadStream pf dir mounted cache ident
                    = (Stream (JStr ref) JNull, [], None, cache')
                 \<and> cache_ok pf cache'
                 \<and> (ref = ident \<longrightarrow>
                      resolveAndLoadStream pf dir mounted cache ident
                        = (Stream (JStr ident) JNull, [], None, cache'))"
proof -
  from assms(2,3) have d: "direct_by_extension pf ref"
    by (simp add: direct_by_extension_def Let_def)
  obtain direct cache1 where i: "isDirectStreamUrl pf cache ref = (direct, cache1)"
    by (cases "isDirectStreamUrl pf cache ref")
  from isDirectStreamUrl_cache_ok [OF assms(4), of ref] i have c1: "cache_ok pf cache1"
    by simp
  have "\<exists>cache'. resolveAndLoadStream pf dir mounted cache ident
                    = (Stream (JStr ref) JNull, [], None, cache')
                 \<and> cache_ok pf cache'"
  proof (cases "ref = []")
    case True
    with i have "direct = JBool False" and "cache1 = cache"
      by (simp_all add: isDirectStreamUrl_def)
    with True i assms(1,4) show ?thesis
      by (simp add: resolveAndLoadStream_def extractChannelId_def)
  next
    case False
    from isDirectStreamUrl_direct [OF assms(4) d False] i have "truthy direct"
      by simp
    with i assms(1) c1 show ?thesis
      by (simp add: resolveAndLoadStream_def)
  qed
  then show ?thesis
    by auto
qed

lemma sample_platform_decode: "decodeURIComponent sample_platform u = Inr u"
  by (simp add: sample_platform_def)

theorem direct_url_needs_no_lookup_witness:
  "decodeURIComponent sample_platform ''http://tv.example/live.M3U8''
     = Inr ''http://tv.example/live.M3U8''
   \<and> url_pathname sample_platform ''http://tv.example/live.M3U8'' = Some ''/live.M3U8''
   \<and> endsWith (toLowerCase ''/live.M3U8'') ''.m3u8''
   \<and> cache_ok sample_platform []
   \<and> (\<exists>cache'. resolveAndLoadStream sample_platform url_on_second_lookup True []
                   ''http://tv.example/live.M3U8''
                 = (Stream (JStr ''http://tv.example/live.M3U8'') JNull, [], None, cache'))
   \<and> decodeURIComponent escaping_platform ''http%3A%2F%2Fh%2Flive.m3u8''
     = Inr ''http://h/live.m3u8''
   \<and> url_pathname escaping_platform ''http://h/live.m3u8'' = Some ''/live.m3u8''
   \<and> endsWith (toLowerCase ''/live.m3u8'') ''.m3u8''
   \<and> cache_ok escaping_platform []
   \<and> (\<exists>cache'. resolveAndLoadStream escaping_platform url_on_second_lookup True []
                   ''http%3A%2F%2Fh%2Flive.m3u8''
                 = (Stream (JStr ''http://h/live.m3u8'') JNull, [], None, cache'))"
proof -
  have h1: "decodeURIComponent sample_platform ''http://tv.example/live.M3U8''
     = Inr ''http://tv.example/live.M3U8''"
    by (rule sample_platform_decode)
  have h2: "url_pathname sample_platform ''http://tv.example/live.M3U8'' = Some ''/live.M3U8''"
    by (simp add: sample_platform_def)
  have e: "endsWith (toLowerCase ''/live.M3U8'') ''.m3u8''"
    by (simp add: endsWith_def toLowerCase_def lower_char_def)
  then have h3: "endsWith (toLowerCase ''/live.M3U8'') ''.m3u8''
       \<or> endsWith (toLowerCase ''/live.M3U8'') ''.m3u''
       \<or> endsWith (toLowerCase ''/live.M3U8'') ''.ts''"
    by (rule disjI1)
  have h4: "cache_ok sample_platform []"
    by (rule cache_ok_Nil)
  from direct_url_needs_no_lookup [OF h1 h2 h3 h4, of url_on_second_lookup True]
  have a: "\<exists>cache'. resolveAndLoadStream sample_platform url_on_second_lookup True []
                   ''http://tv.example/live.M3U8''
                 = (Stream (JStr ''http://tv.example/live.M3U8'') JNull, [], None, cache')"
    by blast
  have k1: "decodeURIComponent escaping_platform ''http%3A%2F%2Fh%2Flive.m3u8''
     = Inr ''http://h/live.m3u8''"
    by (simp add: escaping_platform_def)
  have k2: "url_pathname escaping_platform ''http://h/live.m3u8'' = Some ''/live.m3u8''"
    by (simp add: escaping_platform_def)
  have e': "endsWith (toLowerCase ''/live.m3u8'') ''.m3u8''"
    by (simp add: endsWith_def toLowerCase_def lower_char_def)
  then have k3: "endsWith (toLowerCase ''/live.m3u8'') ''.m3u8''
       \<or> endsWith (toLowerCase ''/live.m3u8'') ''.m3u''
       \<or> endsWith (toLowerCase ''/live.m3u8'') ''.ts''"
    by (rule disjI1)
  have k4: "cache_ok escaping_platform []"
    by (rule cache_ok_Nil)
  from direct_url_needs_no_lookup [OF k1 k2 k3 k4, of url_on_second_lookup True]
  have b: "\<exists>cache'. resolveAndLoadStream escaping_platform url_on_second_lookup True []
                   ''http%3A%2F%2Fh%2Flive.m3u8''
                 = (Stream (JStr ''http://h/live.m3u8'') JNull, [], None, cache')"
    by blast
  from h1 h2 e h4 a k1 k2 e' k4 b show ?thesis
    by blast
qed

text \<open>
  The claim as stated fails: the path of the reference \<open>http://h/a%3Fb.m3u8\<close> ends in
  \<open>.m3u8\<close>, but its decoded form \<open>http://h/a?b.m3u8\<close> has the path \<open>/a\<close>; resolution
  calls the directory twice with the decoded text and fails.
\<close>

theorem direct_url_counterexample:
  "direct_by_extension escaping_platform ''http://h/a%3Fb.m3u8''
   \<and> fst (resolveAndLoadStream escaping_platform empty_directory True []
             ''http://h/a%3Fb.m3u8'')
       = Failure ''Channel found but no stream URL available''
   \<and> fst (snd (resolveAndLoadStream escaping_platform empty_directory True []
                  ''http://h/a%3Fb.m3u8''))
       = [GetChannelDetails (JStr ''http://h/a?b.m3u8''),
          FindChannel (JStr ''http://h/a?b.m3u8'')]"
  by (simp add: resolveAndLoadStream_def isDirectStreamUrl_def extractChannelId_def
      query_directory_def has_stream_url_def escaping_platform_def empty_directory_def
      direct_by_extension_def endsWith_def toLowerCase_def lower_char_def)

lemma resolve_lookup:
  assumes "decodeURIComponent pf ident = Inr ref"
    and "isDirectStreamUrl pf cache ref = (direct, cache1)" and "\<not> truthy direct"
    and "extractChannelId cache1 ref = (cid, cache2)" and "truthy cid"
  shows "resolveAndLoadStream pf dir mounted cache ident =
           (case query_directory dir cid of
              (Inl msg, calls) \<Rightarrow> (Failure msg, calls, None, cache2)
            | (Inr channelData, calls) \<Rightarrow>
                if mounted
                then (Stream (get_prop channelData ''url'') channelData, calls,
                      Some (channel_from_api (get_prop channelData ''url'') channelData), cache2)
                else (Abandoned, calls, None, cache2))"
  using assms by (simp add: resolveAndLoadStream_def Let_def split: prod.splits sum.splits)

text \<open>
  C4, as amended. For a channel reference that \<open>isDirectStreamUrl\<close> rejects and for
  which \<open>extractChannelId\<close> gives a non-empty identifier, resolution calls
  \<open>getChannelDetails\<close> (by id) first and \<open>findChannel\<close> (by name) second, the second
  only when the first reply is empty; there is no third lookup. The first non-empty reply
  decides: its URL becomes the stream URL, and when it has none, resolution fails with
  "Channel found but no stream URL available" without a further lookup. A rejected call
  fails resolution with "Could not find stream URL for this channel".
\<close>

theorem lookup_order:
  assumes "decodeURIComponent pf ident = Inr ref"
    and "isDirectStreamUrl pf cache ref = (direct, cache1)" and "\<not> truthy direct"
    and "extractChannelId cache1 ref = (cid, cache2)" and "truthy cid"
  shows "(getChannelDetails dir cid = Rejects \<longrightarrow>
            resolveAndLoadStream pf dir mounted cache ident =
              (Failure ''Could not find stream URL for this channel'',
               [GetChannelDetails cid], None, cache2))
       \<and> (\<forall>d. getChannelDetails dir cid = Resolves d \<and> truthy d \<longrightarrow>
            resolveAndLoadStream pf dir mounted cache ident =
              after_hit mounted cache2 [GetChannelDetails cid] d)
       \<and> (\<forall>d. getChannelDetails dir cid = Resolves d \<and> \<not> truthy d \<longrightarrow>
            (findChannel dir cid = Rejects \<longrightarrow>
               resolveAndLoadStream pf dir mounted cache ident =
                 (Failure ''Could not find stream URL for this channel'',
                  [GetChannelDetails cid, FindChannel cid], None, cache2))
            \<and> (\<forall>d'. findChannel dir cid = Resolves d' \<longrightarrow>
                  resolveAndLoadStream pf dir mounted cache ident =
                    after_hit mounted cache2 [GetChannelDetails cid, FindChannel cid] d'))"
  by (auto simp: resolve_lookup [OF assms] query_directory_def has_stream_url_def
      after_hit_def)

lemma news_not_direct:
  "isDirectStreamUrl sample_platform [] ''news'' = (JBool False, [(''news'', JBool False)])"
  by (simp add: isDirectStreamUrl_def sample_platform_def)

lemma news_channel_id:
  "extractChannelId [(''news'', JBool False)] ''news''
     = (JStr ''news'', [(''news'', JBool False), (''channelId:news'', JStr ''news'')])"
  by (simp add: extractChannelId_def)

theorem lookup_order_witness:
  "decodeURIComponent sample_platform ''news'' = Inr ''news''
   \<and> isDirectStreamUrl sample_platform [] ''news'' = (JBool False, [(''news'', JBool False)])
   \<and> \<not> truthy (JBool False)
   \<and> extractChannelId [(''news'', JBool False)] ''news''
       = (JStr ''news'', [(''news'', JBool False), (''channelId:news'', JStr ''news'')])
   \<and> truthy (JStr ''news'')
   \<and> getChannelDetails found_by_name (JStr ''news'') = Resolves JNull
   \<and> \<not> truthy JNull
   \<and> findChannel found_by_name (JStr ''news'')
       = Resolves (JObj [(''name'', JStr ''News''), (''url'', JStr ''http://tv.example/live.m3u8'')])
   \<and> resolveAndLoadStream sample_platform found_by_name True [] ''news''
       = after_hit True [(''news'', JBool False), (''channelId:news'', JStr ''news'')]
           [GetChannelDetails (JStr ''news''), FindChannel (JStr ''news'')]
           (JObj [(''name'', JStr ''News''), (''url'', JStr ''http://tv.example/live.m3u8'')])"
proof -
  have h1: "decodeURIComponent sample_platform ''news'' = Inr ''news''"
    by (rule sample_platform_decode)
  have h3: "\<not> truthy (JBool False)"
    by simp
  have h5: "truthy (JStr ''news'')"
    by simp
  have g: "getChannelDetails found_by_name (JStr ''news'') = Resolves JNull"
    by (simp add: found_by_name_def)
  have n: "\<not> truthy JNull"
    by simp
  have f: "findChannel found_by_name (JStr ''news'')
       = Resolves (JObj [(''name'', JStr ''News''), (''url'', JStr ''http://tv.example/live.m3u8'')])"
    by (simp add: found_by_name_def)
  from lookup_order [OF h1 news_not_direct h3 news_channel_id h5, of found_by_name True] g n f
  have "resolveAndLoadStream sample_platform found_by_name True [] ''news''
       = after_hit True [(''news'', JBool False), (''channelId:news'', JStr ''news'')]
           [GetChannelDetails (JStr ''news''), FindChannel (JStr ''news'')]
           (JObj [(''name'', JStr ''News''), (''url'', JStr ''http://tv.example/live.m3u8'')])"
    by blast
  with h1 news_not_direct h3 news_channel_id h5 g n f show ?thesis
    by blast
qed

text \<open>
  The claim as stated fails: when the reply by id has no stream URL, the lookup by name,
  whose reply has one, is not made, and resolution fails.
\<close>

theorem lookup_order_counterexample:
  "fst (resolveAndLoadStream sample_platform url_on_second_lookup True [] ''news'')
     = Failure ''Channel found but no stream URL available''
   \<and> fst (snd (resolveAndLoadStream sample_platform url_on_second_lookup True [] ''news''))
     = [GetChannelDetails (JStr ''news'')]
   \<and> findChannel url_on_second_lookup (JStr ''news'')
     = Resolves (JObj [(''name'', JStr ''News''), (''url'', JStr ''http://tv.example/live.m3u8'')])
   \<and> truthy (get_prop (JObj [(''name'', JStr ''News''),
                              (''url'', JStr ''http://tv.example/live.m3u8'')]) ''url'')"
  by (simp add: resolve_lookup [OF sample_platform_decode news_not_direct _ news_channel_id]
      query_directory_def has_stream_url_def url_on_second_lookup_def)

subsection \<open>Fatal network errors\<close>

lemma manifest_load_error_is_cors:
  assumes "etype data = NETWORK_ERROR" and "details data = MANIFEST_LOAD_ERROR"
    and "\<not> (streamLoaded p \<and> video_playing ctx)"
  shows "on_hls_error ctx data p =
           (p\<lparr> errorDetails := cors_details,
               error := ''Stream access restricted (CORS policy)'',
               loading := False \<rparr>, [])"
  using assms
  by (auto simp: on_hls_error_def isCorsError_def NETWORK_ERROR_def MANIFEST_LOAD_ERROR_def)

lemma zero_code_is_cors:
  assumes "response data = Some (0, t)" and "\<not> (streamLoaded p \<and> video_playing ctx)"
  shows "on_hls_error ctx data p =
           (p\<lparr> errorDetails := cors_details,
               error := ''Stream access restricted (CORS policy)'',
               loading := False \<rparr>, [])"
  using assms by (auto simp: on_hls_error_def isCorsError_def)

text \<open>
  The branch that reports an unreachable server is entered only for a network error whose
  detail is the manifest load error; every such event satisfies the CORS test made before,
  so the branch is never reached.
\<close>

lemma unreachable_branch_shadowed:
  "etype data = NETWORK_ERROR \<Longrightarrow> details data = MANIFEST_LOAD_ERROR \<Longrightarrow> isCorsError data"
  by (simp add: isCorsError_def NETWORK_ERROR_def MANIFEST_LOAD_ERROR_def)

text \<open>
  C9. What the code does for a fatal network error with a zero-status response (the
  manifest could not be loaded, request status 0): after one earlier retry the session
  ends with the message "Stream access restricted (CORS policy)", not with the
  server-unreachable message "Stream server not found"; and with no earlier retry the
  session ends in the same way, where the claim says it goes on.
\<close>

theorem zero_status_after_retry_reports_cors:
  "unreachable_host zero_status_error
   \<and> fst (on_hls_error playing_ctx zero_status_error (player_after_retries 1))
       = (player_after_retries 1)\<lparr> errorDetails := cors_details,
             error := ''Stream access restricted (CORS policy)'', loading := False \<rparr>
   \<and> error (fst (on_hls_error playing_ctx zero_status_error (player_after_retries 1)))
       \<noteq> ''Stream server not found''
   \<and> terminal_error (fst (on_hls_error playing_ctx zero_status_error (player_after_retries 0)))"
proof -
  have n: "\<not> (streamLoaded (player_after_retries k) \<and> video_playing playing_ctx)" for k
    by (simp add: player_after_retries_def)
  have e: "etype zero_status_error = NETWORK_ERROR"
    by (simp add: zero_status_error_def NETWORK_ERROR_def)
  have d: "details zero_status_error = MANIFEST_LOAD_ERROR"
    by (simp add: zero_status_error_def MANIFEST_LOAD_ERROR_def)
  have u: "unreachable_host zero_status_error"
    by (simp add: unreachable_host_def zero_status_error_def)
  show ?thesis
    by (simp add: manifest_load_error_is_cors [OF e d n] u terminal_error_def)
qed

subsection \<open>Live or seekable\<close>

lemma live_stable_step:
  assumes "isLive s" and "\<not> showTimeline s" and "reports_live e"
  shows "isLive (feed e s) \<and> \<not> showTimeline (feed e s)"
proof (cases e)
  case (TimeUpdate dragging seen v)
  with assms show ?thesis
    by (simp add: handleTimeUpdate_def reports_live_def Let_def)
next
  case (DurationChange v)
  with assms show ?thesis
    by (simp add: handleDurationChange_def reports_live_def Let_def)
next
  case (StreamTypeCheck v)
  with assms show ?thesis
    by (simp add: checkStreamType_def reports_live_def)
qed

lemma long_stable_step:
  assumes "\<not> isLive s" and "showTimeline s" and "reports_long e"
  shows "\<not> isLive (feed e s) \<and> showTimeline (feed e s)"
proof (cases e)
  case (TimeUpdate dragging seen v)
  with assms show ?thesis
    by (auto simp: handleTimeUpdate_def reports_long_def Let_def js_lt_def split: jsnum.splits)
next
  case (DurationChange v)
  with assms show ?thesis
    by (auto simp: handleDurationChange_def reports_long_def Let_def split: jsnum.splits)
next
  case (StreamTypeCheck v)
  with assms show ?thesis
    by (auto simp: checkStreamType_def reports_long_def Let_def split: jsnum.splits)
qed

lemma live_stable:
  "isLive s \<Longrightarrow> \<not> showTimeline s \<Longrightarrow> list_all reports_live es \<Longrightarrow>
     isLive (feed_all es s) \<and> \<not> showTimeline (feed_all es s)"
  unfolding feed_all_def
proof (induction es arbitrary: s)
  case Nil
  then show ?case by simp
next
  case (Cons e es)
  from Cons.prems have "isLive (feed e s) \<and> \<not> showTimeline (feed e s)"
    by (simp add: live_stable_step)
  with Cons.IH [of "feed e s"] Cons.prems(3) show ?case
    by simp
qed

lemma long_stable:
  "\<not> isLive s \<Longrightarrow> showTimeline s \<Longrightarrow> list_all reports_long es \<Longrightarrow>
     \<not> isLive (feed_all es s) \<and> showTimeline (feed_all es s)"
  unfolding feed_all_def
proof (induction es arbitrary: s)
  case Nil
  then show ?case by simp
next
  case (Cons e es)
  from Cons.prems have "\<not> isLive (feed e s) \<and> showTimeline (feed e s)"
    by (simp add: long_stable_step)
  with Cons.IH [of "feed e s"] Cons.prems(3) show ?case
    by simp
qed

lemma complete_step: "liveDetectionComplete s \<Longrightarrow> liveDetectionComplete (feed e s)"
proof (cases e)
  case (TimeUpdate dragging seen v)
  then show ?thesis if "liveDetectionComplete s"
    using that by (auto simp: handleTimeUpdate_def Let_def split: jsnum.splits)
next
  case (DurationChange v)
  then show ?thesis if "liveDetectionComplete s"
    using that by (auto simp: handleDurationChange_def Let_def)
next
  case (StreamTypeCheck v)
  then show ?thesis if "liveDetectionComplete s"
    using that by (auto simp: checkStreamType_def Let_def split: jsnum.splits)
qed

lemma complete_stays:
  "liveDetectionComplete s \<Longrightarrow> liveDetectionComplete (feed_all es s)"
  unfolding feed_all_def
  by (induction es arbitrary: s) (simp_all add: complete_step)

lemma terminal_live:
  "v_duration v = PosInf \<Longrightarrow>
     isLive (handleDurationChange v s) \<and> \<not> showTimeline (handleDurationChange v s)
     \<and> liveDetectionComplete (handleDurationChange v s)"
  by (simp add: handleDurationChange_def Let_def)

lemma terminal_long:
  "v_duration v = Fin d \<Longrightarrow> d > 120 \<Longrightarrow>
     \<not> isLive (handleDurationChange v s) \<and> showTimeline (handleDurationChange v s)
     \<and> liveDetectionComplete (handleDurationChange v s)"
  by (simp add: handleDurationChange_def Let_def)

text \<open>
  C7, as amended. Once a duration change has classified the stream as live (infinite
  duration), any further samples that report an infinite duration leave it live with the
  timeline hidden; once a duration change has classified it as seekable (finite duration
  above 120), any further samples that report a finite duration above 120 leave it
  seekable with the timeline shown; and the detection-complete flag, once set, is never
  cleared by any sample. (A sample of the other kind does reclassify.)
\<close>

theorem classification_stable_within_class:
  "(v_duration v = PosInf \<and> list_all reports_live es \<longrightarrow>
      isLive (feed_all es (handleDurationChange v s))
      \<and> \<not> showTimeline (feed_all es (handleDurationChange v s)))
   \<and> (reports_long (DurationChange v) \<and> list_all reports_long es \<longrightarrow>
      \<not> isLive (feed_all es (handleDurationChange v s))
      \<and> showTimeline (feed_all es (handleDurationChange v s)))
   \<and> (liveDetectionComplete s \<longrightarrow> liveDetectionComplete (feed_all es s))"
proof -
  have l: "isLive (feed_all es (handleDurationChange v s))
      \<and> \<not> showTimeline (feed_all es (handleDurationChange v s))"
    if a: "v_duration v = PosInf \<and> list_all reports_live es"
    using a terminal_live [of v s] live_stable [of "handleDurationChange v s" es]
    by blast
  have r: "\<not> isLive (feed_all es (handleDurationChange v s))
      \<and> showTimeline (feed_all es (handleDurationChange v s))"
    if a: "reports_long (DurationChange v) \<and> list_all reports_long es"
  proof -
    from a obtain d where d: "v_duration v = Fin d" "d > 120"
      by (auto simp: reports_long_def split: jsnum.splits)
    from terminal_long [OF d, of s] long_stable [of "handleDurationChange v s" es] a
    show ?thesis
      by blast
  qed
  from l r complete_stays [of s es] show ?thesis
    by blast
qed

theorem classification_stable_within_class_witness:
  "v_duration live_sample = PosInf
   \<and> list_all reports_live [StreamTypeCheck live_sample, TimeUpdate False False live_sample]
   \<and> isLive (feed_all [StreamTypeCheck live_sample, TimeUpdate False False live_sample]
               (handleDurationChange live_sample initial_classifier))
   \<and> reports_long (DurationChange long_sample)
   \<and> list_all reports_long [StreamTypeCheck long_sample, TimeUpdate False False long_sample]
   \<and> \<not> isLive (feed_all [StreamTypeCheck long_sample, TimeUpdate False False long_sample]
               (handleDurationChange long_sample initial_classifier))
   \<and> liveDetectionComplete (handleDurationChange live_sample initial_classifier)
   \<and> liveDetectionComplete (feed_all [StreamTypeCheck long_sample]
               (handleDurationChange live_sample initial_classifier))"
proof -
  have h1: "v_duration live_sample = PosInf"
    by (simp add: live_sample_def)
  have h2: "list_all reports_live [StreamTypeCheck live_sample, TimeUpdate False False live_sample]"
    by (simp add: reports_live_def live_sample_def)
  have h3: "reports_long (DurationChange long_sample)"
    by (simp add: reports_long_def long_sample_def)
  have h4: "list_all reports_long [StreamTypeCheck long_sample, TimeUpdate False False long_sample]"
    by (simp add: reports_long_def long_sample_def)
  from classification_stable_within_class
         [of live_sample "[StreamTypeCheck live_sample, TimeUpdate False False live_sample]"
             initial_classifier] h1 h2
  have a: "isLive (feed_all [StreamTypeCheck live_sample, TimeUpdate False False live_sample]
               (handleDurationChange live_sample initial_classifier))"
    by blast
  from classification_stable_within_class
         [of long_sample "[StreamTypeCheck long_sample, TimeUpdate False False long_sample]"
             initial_classifier] h3 h4
  have b: "\<not> isLive (feed_all [StreamTypeCheck long_sample, TimeUpdate False False long_sample]
               (handleDurationChange long_sample initial_classifier))"
    by blast
  have h5: "liveDetectionComplete (handleDurationChange live_sample initial_classifier)"
    by (simp add: handleDurationChange_def live_sample_def)
  from classification_stable_within_class
         [of long_sample "[StreamTypeCheck long_sample]"
             "handleDurationChange live_sample initial_classifier"] h5
  have c: "liveDetectionComplete (feed_all [StreamTypeCheck long_sample]
               (handleDurationChange live_sample initial_classifier))"
    by blast
  from h1 h2 a h3 h4 b h5 c show ?thesis
    by blast
qed

text \<open>
  The claim as stated fails: a stream classified live by an infinite duration is
  reclassified as seekable by the next periodic check that sees a finite duration above
  120, and a stream classified seekable becomes live when the duration changes to
  \<open>Infinity\<close>.
\<close>

theorem classification_flips_counterexample:
  "liveDetectionComplete (handleDurationChange live_sample initial_classifier)
   \<and> isLive (handleDurationChange live_sample initial_classifier)
   \<and> \<not> isLive (feed_all [StreamTypeCheck long_sample]
                  (handleDurationChange live_sample initial_classifier))
   \<and> liveDetectionComplete (handleDurationChange long_sample initial_classifier)
   \<and> \<not> isLive (handleDurationChange long_sample initial_classifier)
   \<and> isLive (feed_all [DurationChange live_sample]
                  (handleDurationChange long_sample initial_classifier))"
  by (simp add: feed_all_def handleDurationChange_def checkStreamType_def live_sample_def
      long_sample_def initial_classifier_def)

subsection \<open>Watch history\<close>

lemma new_item_id: "item_channel_id (newHistoryItem now u meta) = Some (JStr u)"
  by (simp add: item_channel_id_def newHistoryItem_def channelData_of_def nullish_def)

lemma updatedHistory_length: "length (updatedHistory now u meta h) \<le> 100"
  by (simp add: updatedHistory_def)

lemma updatedHistory_hd: "hd (updatedHistory now u meta h) = newHistoryItem now u meta"
  by (simp add: updatedHistory_def)

lemma updatedHistory_nonempty: "updatedHistory now u meta h \<noteq> []"
  by (simp add: updatedHistory_def)

lemma updatedHistory_tl:
  "tl (updatedHistory now u meta h)
     = take 99 (filter (\<lambda>item. item_channel_id item \<noteq> Some (JStr u)) h)"
  by (simp add: updatedHistory_def)

lemma updatedHistory_no_other:
  "Some (JStr u) \<notin> set (history_ids (tl (updatedHistory now u meta h)))"
  by (auto simp: updatedHistory_tl history_ids_def dest!: in_set_takeD)

lemma distinct_map_filter_take:
  "distinct (map f xs) \<Longrightarrow> distinct (map f (take n (filter P xs)))"
  by (metis distinct_map_filter distinct_take take_map)

lemma updatedHistory_distinct:
  assumes "distinct (history_ids h)"
  shows "distinct (history_ids (updatedHistory now u meta h))"
proof -
  let ?rest = "take 99 (filter (\<lambda>item. item_channel_id item \<noteq> Some (JStr u)) h)"
  have e: "updatedHistory now u meta h = newHistoryItem now u meta # ?rest"
    by (simp add: updatedHistory_def)
  have d: "distinct (map item_channel_id ?rest)"
    using assms by (simp add: distinct_map_filter_take history_ids_def)
  have n: "Some (JStr u) \<notin> set (map item_channel_id ?rest)"
    by (auto dest!: in_set_takeD)
  show ?thesis
    using d n by (simp add: e history_ids_def new_item_id)
qed

lemma loadChannelDetails_Inr:
  assumes "loadChannelDetails now u meta store = (Inr c, store')"
  shows "c = channelData_of u meta
       \<and> store' = (if set_fails store then store
                    else store\<lparr> watchHistory :=
                           JArr (updatedHistory now u meta (stored_history store)) \<rparr>)"
  using assms
  by (auto simp: loadChannelDetails_def stored_history_def split: if_splits jsval.splits)

lemma updatedHistory_eq:
  "updatedHistory now u meta h
     = newHistoryItem now u meta
       # take 99 (filter (\<lambda>item. item_channel_id item \<noteq> Some (JStr u)) h)"
  by (simp add: updatedHistory_def)

text \<open>
  C10, as amended. After a channel is opened and its details loaded: when the write of
  the history succeeds, the stored watch history is the entry of the channel just opened
  followed by the first 99 of the entries read whose channel id is not the opened stream
  URL, in their order; so it has at most 100 entries, its first entry is the one of the
  channel just opened, no later entry has that channel's id, and if no two entries of the
  history read shared a channel id, no two entries of the history written do. When the
  write fails, the failure is ignored: the channel is opened and the store is as before.
\<close>

theorem history_after_open:
  assumes "loadChannelDetails now u meta store = (Inr c, store')"
  shows "c = channelData_of u meta
       \<and> (set_fails store \<longrightarrow> store' = store)
       \<and> (\<not> set_fails store \<longrightarrow>
            (\<exists>h'. watchHistory store' = JArr h'
               \<and> h' = newHistoryItem now u meta
                      # take 99 (filter (\<lambda>item. item_channel_id item \<noteq> Some (JStr u))
                                  (stored_history store))
               \<and> length h' \<le> 100
               \<and> hd h' = newHistoryItem now u meta
               \<and> item_channel_id (hd h') = Some (JStr u)
               \<and> Some (JStr u) \<notin> set (history_ids (tl h'))
               \<and> (distinct (history_ids (stored_history store))
                    \<longrightarrow> distinct (history_ids h'))))"
proof (intro conjI impI)
  note r = loadChannelDetails_Inr [OF assms]
  show "c = channelData_of u meta"
    using r by simp
  show "store' = store" if "set_fails store"
    using r that by simp
  show "\<exists>h'. watchHistory store' = JArr h'
               \<and> h' = newHistoryItem now u meta
                      # take 99 (filter (\<lambda>item. item_channel_id item \<noteq> Some (JStr u))
                                  (stored_history store))
               \<and> length h' \<le> 100
               \<and> hd h' = newHistoryItem now u meta
               \<and> item_channel_id (hd h') = Some (JStr u)
               \<and> Some (JStr u) \<notin> set (history_ids (tl h'))
               \<and> (distinct (history_ids (stored_history store))
                    \<longrightarrow> distinct (history_ids h'))"
    if ok: "\<not> set_fails store"
  proof -
    let ?h' = "updatedHistory now u meta (stored_history store)"
    have w: "watchHistory store' = JArr ?h'"
      using r ok by simp
    have e: "?h' = newHistoryItem now u meta
                      # take 99 (filter (\<lambda>item. item_channel_id item \<noteq> Some (JStr u))
                                  (stored_history store))"
      by (rule updatedHistory_eq)
    have l: "length ?h' \<le> 100"
      by (rule updatedHistory_length)
    have f: "hd ?h' = newHistoryItem now u meta"
      by (rule updatedHistory_hd)
    have i: "item_channel_id (hd ?h') = Some (JStr u)"
      by (simp add: f new_item_id)
    have n: "Some (JStr u) \<notin> set (history_ids (tl ?h'))"
      by (rule updatedHistory_no_other)
    have d: "distinct (history_ids (stored_history store)) \<longrightarrow> distinct (history_ids ?h')"
      by (simp add: updatedHistory_distinct)
    from w e l f i n d show ?thesis
      by blast
  qed
qed

lemma open_revisit:
  "loadChannelDetails 5 ''http://a/y.m3u8'' plain_meta revisit_store
     = (Inr (channelData_of ''http://a/y.m3u8'' plain_meta),
        revisit_store\<lparr> watchHistory :=
          JArr [newHistoryItem 5 ''http://a/y.m3u8'' plain_meta, history_item ''http://b/x.m3u8''] \<rparr>)"
  by (simp add: loadChannelDetails_def revisit_store_def updatedHistory_def history_item_def
      item_channel_id_def nullish_def js_or_def)

lemma open_full:
  "loadChannelDetails 5 ''http://a/y.m3u8'' plain_meta full_store
     = (Inr (channelData_of ''http://a/y.m3u8'' plain_meta), full_store)"
  by (simp add: loadChannelDetails_def full_store_def history_item_def
      item_channel_id_def nullish_def js_or_def)

lemma revisit_history:
  "stored_history revisit_store
     = [history_item ''http://b/x.m3u8'', history_item ''http://a/y.m3u8'']"
  by (simp add: stored_history_def revisit_store_def js_or_def)

theorem history_after_open_witness:
  "loadChannelDetails 5 ''http://a/y.m3u8'' plain_meta revisit_store
     = (Inr (channelData_of ''http://a/y.m3u8'' plain_meta),
        revisit_store\<lparr> watchHistory :=
          JArr [newHistoryItem 5 ''http://a/y.m3u8'' plain_meta, history_item ''http://b/x.m3u8''] \<rparr>)
   \<and> \<not> set_fails revisit_store
   \<and> distinct (history_ids (stored_history revisit_store))
   \<and> distinct (history_ids
        [newHistoryItem 5 ''http://a/y.m3u8'' plain_meta, history_item ''http://b/x.m3u8''])
   \<and> loadChannelDetails 5 ''http://a/y.m3u8'' plain_meta full_store
     = (Inr (channelData_of ''http://a/y.m3u8'' plain_meta), full_store)
   \<and> set_fails full_store
   \<and> stored_history full_store
     = [history_item ''http://b/x.m3u8'', history_item ''http://a/y.m3u8'']"
proof -
  have ok: "\<not> set_fails revisit_store"
    by (simp add: revisit_store_def)
  have d: "distinct (history_ids (stored_history revisit_store))"
    by (simp add: revisit_history history_ids_def history_item_def item_channel_id_def
        nullish_def)
  have w: "watchHistory (revisit_store\<lparr> watchHistory :=
          JArr [newHistoryItem 5 ''http://a/y.m3u8'' plain_meta, history_item ''http://b/x.m3u8''] \<rparr>)
        = JArr [newHistoryItem 5 ''http://a/y.m3u8'' plain_meta, history_item ''http://b/x.m3u8'']"
    by simp
  from history_after_open [OF open_revisit] ok d
  obtain h' where "watchHistory (revisit_store\<lparr> watchHistory :=
          JArr [newHistoryItem 5 ''http://a/y.m3u8'' plain_meta, history_item ''http://b/x.m3u8''] \<rparr>)
        = JArr h'" and "distinct (history_ids h')"
    by blast
  with w have a: "distinct (history_ids
        [newHistoryItem 5 ''http://a/y.m3u8'' plain_meta, history_item ''http://b/x.m3u8''])"
    by simp
  have f: "set_fails full_store"
    by (simp add: full_store_def)
  have s: "stored_history full_store
     = [history_item ''http://b/x.m3u8'', history_item ''http://a/y.m3u8'']"
    by (simp add: stored_history_def full_store_def js_or_def)
  from history_after_open [OF open_full] f
  have "full_store = full_store"
    by blast
  with open_revisit ok d a open_full f s show ?thesis
    by blast
qed

text \<open>
  The claim as stated fails: two entries of the stored history that share an id other
  than the opened one are both kept.
\<close>

theorem history_distinct_counterexample:
  "fst (loadChannelDetails 5 ''http://a/y.m3u8'' plain_meta duplicated_store)
     = Inr (channelData_of ''http://a/y.m3u8'' plain_meta)
   \<and> watchHistory (snd (loadChannelDetails 5 ''http://a/y.m3u8'' plain_meta duplicated_store))
     = JArr [newHistoryItem 5 ''http://a/y.m3u8'' plain_meta,
             history_item ''http://b/x.m3u8'', history_item ''http://b/x.m3u8'']
   \<and> \<not> distinct (history_ids
         [newHistoryItem 5 ''http://a/y.m3u8'' plain_meta,
          history_item ''http://b/x.m3u8'', history_item ''http://b/x.m3u8''])"
  by (simp add: loadChannelDetails_def duplicated_store_def updatedHistory_def history_item_def
      item_channel_id_def nullish_def history_ids_def js_or_def)

end
